theory Spec2Isabelle
  imports Main "HOL-Library.AList"
begin

section \<open>Values, nodes and URIs\<close>

text \<open>
  The client in \<^verbatim>\<open>djedi-react/src/djedi.js\<close> is modelled as a state record \<open>world\<close> that
  holds the fields of the \<^verbatim>\<open>Djedi\<close> instance together with the part of the host the
  instance talks to: the heap of plain objects behind \<^verbatim>\<open>window.DJEDI_NODES\<close>, the pending
  timers, the network requests issued and still in flight, and the log of callback
  invocations. Every method is a function from a state to the next state. The methods
  \<^verbatim>\<open>loadByPrefix\<close>, \<^verbatim>\<open>injectAdmin\<close> and \<^verbatim>\<open>element\<close> are left out: no property below is about
  them.

  A node value is \<^verbatim>\<open>string | undefined\<close> on input; a value that came back from the server
  as JSON may also be \<^verbatim>\<open>null\<close>.
\<close>

datatype jsval = Undefined | Null | Str string

record node =
  uri :: string
  "value" :: jsval

text \<open>
  The five URI fields. The same shape is used for a parsed URI (fields may be unset,
  \<open>string option\<close>), for a URI with defaults applied, for the table of defaults and for the
  table of separators (\<open>string\<close>).
\<close>

record 'a uri_fields =
  scheme :: 'a
  namespace :: 'a
  path :: 'a
  ext :: 'a
  version :: 'a

type_synonym parsed_uri = "string option uri_fields"
type_synonym uri_object = "string uri_fields"

text \<open>
  \<^verbatim>\<open>import { applyUriDefaults, parseUri, stringifyUri } from "./uri"\<close>: the module is not
  part of the sources at hand, so the three functions are a parameter of every method
  that reaches them.
\<close>

record uri_module =
  parseUri :: "string \<Rightarrow> uri_object \<Rightarrow> parsed_uri"
  applyUriDefaults :: "parsed_uri \<Rightarrow> uri_object \<Rightarrow> (string \<times> string) list \<Rightarrow> uri_object"
  stringifyUri :: "uri_object \<Rightarrow> uri_object \<Rightarrow> string"

subsection \<open>The URI module as the specification describes it\<close>

text \<open>
  Modelled from the spec: the splitting that \<^verbatim>\<open>parseUri\<close> of the missing module \<^verbatim>\<open>./uri\<close>
  does at a configured separator, at its first and at its last occurrence in a string.
\<close>

fun split_first :: "string \<Rightarrow> string \<Rightarrow> (string \<times> string) option" where
  "split_first sep [] = (if sep = [] then Some ([], []) else None)"
| "split_first sep (c # cs) =
     (if take (length sep) (c # cs) = sep then Some ([], drop (length sep) (c # cs))
      else map_option (\<lambda>(a, b). (c # a, b)) (split_first sep cs))"

definition split_last :: "string \<Rightarrow> string \<Rightarrow> (string \<times> string) option" where
  "split_last sep s = map_option (\<lambda>(a, b). (rev b, rev a)) (split_first (rev sep) (rev s))"

text \<open>
  Modelled from the spec: \<^verbatim>\<open>parseUri\<close> of the missing module \<^verbatim>\<open>./uri\<close>. "Parse using
  configured separators into the five fields", the serialised form being
  \<^verbatim>\<open>scheme://namespace@path.ext#version\<close>: the scheme is what precedes the scheme separator,
  the namespace what precedes the namespace separator after it, the version what follows
  the version separator, the extension what follows the last extension separator before
  the version. A field whose separator does not occur is unset.
\<close>

definition spec_parseUri :: "string \<Rightarrow> uri_object \<Rightarrow> parsed_uri" where
  "spec_parseUri s seps =
     (let (sch, r1) = (case split_first (scheme seps) s of
                         Some (a, b) \<Rightarrow> (Some a, b) | None \<Rightarrow> (None, s));
          (ns, r2) = (case split_first (namespace seps) r1 of
                         Some (a, b) \<Rightarrow> (Some a, b) | None \<Rightarrow> (None, r1));
          (r3, ver) = (case split_first (version seps) r2 of
                         Some (a, b) \<Rightarrow> (a, Some b) | None \<Rightarrow> (r2, None));
          (pth, ex) = (case split_last (ext seps) r3 of
                         Some (a, b) \<Rightarrow> (a, Some b) | None \<Rightarrow> (r3, None))
      in \<lparr>scheme = sch, namespace = ns, path = Some pth, ext = ex, version = ver\<rparr>)"

text \<open>
  Modelled from the spec: \<^verbatim>\<open>applyUriDefaults\<close> of the missing module \<^verbatim>\<open>./uri\<close>. "Any unset
  field takes the configured default; if namespace is unset, take the configured default
  namespace for that field's scheme instead of the generic default."
\<close>

definition spec_applyUriDefaults ::
  "parsed_uri \<Rightarrow> uri_object \<Rightarrow> (string \<times> string) list \<Rightarrow> uri_object" where
  "spec_applyUriDefaults u defaults namespaceByScheme =
     (let sch = (case scheme u of Some s \<Rightarrow> s | None \<Rightarrow> scheme defaults) in
      \<lparr>scheme = sch,
       namespace = (case namespace u of
                      Some n \<Rightarrow> n
                    | None \<Rightarrow> (case map_of namespaceByScheme sch of
                                 Some n \<Rightarrow> n | None \<Rightarrow> namespace defaults)),
       path = (case path u of Some p \<Rightarrow> p | None \<Rightarrow> path defaults),
       ext = (case ext u of Some e \<Rightarrow> e | None \<Rightarrow> ext defaults),
       version = (case version u of Some v \<Rightarrow> v | None \<Rightarrow> version defaults)\<rparr>)"

text \<open>
  Modelled from the spec: \<^verbatim>\<open>stringifyUri\<close> of the missing module \<^verbatim>\<open>./uri\<close>. "Serialized
  with configurable separators (default \<^verbatim>\<open>scheme://namespace@path.ext#version\<close>)";
  "serialization is a pure function of the five fields and the separator configuration".
\<close>

definition spec_stringifyUri :: "uri_object \<Rightarrow> uri_object \<Rightarrow> string" where
  "spec_stringifyUri u seps =
     scheme u @ scheme seps @ namespace u @ namespace seps @ path u @ ext seps @ ext u
       @ version seps @ version u"

text \<open>
  Modelled from the spec: the missing module \<^verbatim>\<open>./uri\<close> as a whole, the three functions
  above.
\<close>

definition specUri :: uri_module where
  "specUri = \<lparr>parseUri = spec_parseUri, applyUriDefaults = spec_applyUriDefaults,
              stringifyUri = spec_stringifyUri\<rparr>"

section \<open>Errors\<close>

text \<open>
  What is sent to the server: \<^verbatim>\<open>get\<close> passes the array \<^verbatim>\<open>[node]\<close>, \<^verbatim>\<open>_flushBatch\<close> passes the
  object \<^verbatim>\<open>nodes\<close> it filled with \<^verbatim>\<open>nodes[uri] = data.node.value\<close>.
\<close>

datatype post_data = NodeArray "node list" | NodeObject "(string \<times> jsval) list"

text \<open>
  An error message is kept as its template and the values spliced into it.
  \<open>ApiError\<close> is the text built by \<^verbatim>\<open>createUpdatedErrorMessage\<close>: request method, API url,
  request data, status and status text of the response if there is one, and the
  message of the error it replaces.
\<close>

datatype msg =
    MissingResult string
  | UnexpectedStatusCode int
  | BadError string
  | InvalidJson
  | ApiError string string post_data "(int \<times> string) option" msg

text \<open>
  An \<^verbatim>\<open>Error\<close> object. \<open>eid\<close> is the identity of the object: two errors are the same
  object exactly when they have the same \<open>eid\<close>, and every \<^verbatim>\<open>new Error\<close> takes a fresh one.
\<close>

record err =
  eid :: nat
  message :: msg
  status :: int
  responseText :: "string option"

section \<open>Options\<close>

datatype render_state = Loading | Error err | Success string | Missing | Other

record uri_options =
  defaults :: uri_object
  namespaceByScheme :: "(string \<times> string) list"
  separators :: uri_object

record options =
  baseUrl :: string
  batchInterval :: int
  defaultRender :: "render_state \<Rightarrow> string option"
  uri_opts :: uri_options

text \<open>Decimal rendering of a number inside a template string.\<close>

fun digits :: "nat \<Rightarrow> string" where
  "digits n = (if n < 10 then [char_of (48 + n)]
               else digits (n div 10) @ [char_of (48 + n mod 10)])"

definition show_int :: "int \<Rightarrow> string" where
  "show_int i = (if i < 0 then CHR ''-'' # digits (nat (- i)) else digits (nat i))"

text \<open>
  \<^verbatim>\<open>makeDefaultOptions\<close>. The two characters outside ASCII in the default texts (the
  ellipsis and the emoji) are written as their UTF-8 bytes.
\<close>

definition makeDefaultOptions :: options where
  "makeDefaultOptions =
     \<lparr>baseUrl = [],
      batchInterval = 50,
      defaultRender = (\<lambda>state. case state of
          Loading \<Rightarrow> Some (''Loading'' @ [CHR 0xE2, CHR 0x80, CHR 0xA6])
        | Error error \<Rightarrow>
            Some (''Failed to fetch content '' @ [CHR 0xF0, CHR 0x9F, CHR 0x98, CHR 0x9E]
                  @ '' ('' @ show_int (status error) @ '')'')
        | Success content \<Rightarrow> Some content
        | Missing \<Rightarrow> None
        | Other \<Rightarrow> None),
      uri_opts =
        \<lparr>defaults = \<lparr>scheme = ''i18n'', namespace = [], path = [], ext = ''txt'',
                      version = []\<rparr>,
         namespaceByScheme = [(''i18n'', ''en-us''), (''l10n'', ''local''),
                              (''g11n'', ''global'')],
         separators = \<lparr>scheme = ''://'', namespace = ''@'', path = ''/'', ext = ''.'',
                        version = ''#''\<rparr>\<rparr>\<rparr>"

section \<open>The state of the client and of its host\<close>

text \<open>
  \<^verbatim>\<open>JSON.stringify(data)\<close>, as the JSON value the body text denotes. A property of an
  object whose value is \<^verbatim>\<open>undefined\<close> is left out by \<^verbatim>\<open>JSON.stringify\<close>; \<^verbatim>\<open>undefined\<close> has
  no other place in a node array, since the only field that can hold it is a property.
\<close>

datatype json = JNull | JString string | JArray "json list" | JObject "(string \<times> json) list"

fun json_props :: "(string \<times> jsval) list \<Rightarrow> (string \<times> json) list" where
  "json_props [] = []"
| "json_props ((k, Undefined) # ps) = json_props ps"
| "json_props ((k, Null) # ps) = (k, JNull) # json_props ps"
| "json_props ((k, Str s) # ps) = (k, JString s) # json_props ps"

definition json_node :: "node \<Rightarrow> json" where
  "json_node n = JObject (json_props [(''uri'', Str (uri n)), (''value'', value n)])"

fun JSON_stringify :: "post_data \<Rightarrow> json" where
  "JSON_stringify (NodeArray ns) = JArray (map json_node ns)"
| "JSON_stringify (NodeObject ps) = JObject (json_props ps)"

text \<open>
  A callback handed to \<^verbatim>\<open>get\<close> or \<^verbatim>\<open>getBatched\<close> is opaque: it is named by a number, and
  calling it appends the call and its argument to the log \<open>invoked\<close>. The argument is a
  node (from the cache or built by \<^verbatim>\<open>_flushBatch\<close>), a bare value (\<^verbatim>\<open>results[uri]\<close> in
  \<^verbatim>\<open>get\<close>) or an error. A callback is taken to return normally and not to call a method
  of the client while it runs.
\<close>

type_synonym callback = nat

datatype cb_arg = GotNode node | GotValue jsval | GotError err

record queued =
  qnode :: node
  callbacks :: "callback list"

record batch =
  timeoutId :: "nat option"
  queue :: "(string \<times> queued) list"

text \<open>
  An entry of \<^verbatim>\<open>_renderedNodes\<close>. The key of a JavaScript \<^verbatim>\<open>Map\<close> is any value: a string,
  or an object compared by identity (its address; the contents are kept beside it).
  The value stored under a key may be \<^verbatim>\<open>undefined\<close> (\<open>None\<close>).
\<close>

record rendered =
  r_value :: jsval
  numInstances :: int

datatype mkey = KString string | KObject nat rendered

text \<open>
  What the two promise chains do once the request settles: the handlers \<^verbatim>\<open>get\<close> passes to
  \<^verbatim>\<open>then\<close> close over \<^verbatim>\<open>uri\<close> and \<^verbatim>\<open>callback\<close>, those of \<^verbatim>\<open>_flushBatch\<close> over the detached
  \<^verbatim>\<open>queue\<close>.
\<close>

datatype cont = GetThen string callback | FlushThen "(string \<times> queued) list"

record request =
  url :: string
  body :: json

record pending =
  apiUrl :: string
  data :: post_data
  cont :: cont

record world =
  options :: options
  nodes :: "(string \<times> node) list"
  renderedNodes :: "(mkey \<times> rendered option) list"
  batch :: batch
  DJEDI_NODES :: nat
  window :: "nat option option"
  objects :: "nat \<Rightarrow> (string \<times> jsval) list"
  next_addr :: nat
  timers :: "(nat \<times> int) list"
  next_timer :: nat
  sent :: "request list"
  inflight :: "(nat \<times> pending) list"
  invoked :: "(callback \<times> cb_arg) list"
  warnings :: "(string \<times> jsval \<times> jsval) list"

text \<open>
  \<open>DJEDI_NODES\<close> is the address of the object \<^verbatim>\<open>this._DJEDI_NODES\<close> refers to and \<open>objects\<close>
  the heap of such objects. \<open>window\<close> is \<open>None\<close> where \<^verbatim>\<open>typeof window === "undefined"\<close>, and
  otherwise holds \<^verbatim>\<open>window.DJEDI_NODES\<close>: \<open>None\<close> for \<^verbatim>\<open>null\<close> or \<^verbatim>\<open>undefined\<close>, or the address
  of an object. \<open>timers\<close> are the timers set and neither fired nor cleared, each with its
  delay; the function of every one of them is \<^verbatim>\<open>_flushBatch\<close>. \<open>sent\<close> is the log of network
  requests; a request is named by its position in the log, and \<open>inflight\<close> holds the
  requests not settled yet.
\<close>

definition makeEmptyBatch :: batch where
  "makeEmptyBatch = \<lparr>timeoutId = None, queue = []\<rparr>"

text \<open>
  The constructor. Its argument is the host: \<open>None\<close> without a \<^verbatim>\<open>window\<close>, \<open>Some None\<close> with
  a window that has no \<^verbatim>\<open>DJEDI_NODES\<close> yet, \<open>Some (Some ob)\<close> with a window whose
  \<^verbatim>\<open>DJEDI_NODES\<close> is an object with the properties \<open>ob\<close>.
\<close>

definition Djedi :: "(string \<times> jsval) list option option \<Rightarrow> world" where
  "Djedi host =
     (let w = \<lparr>options = makeDefaultOptions, nodes = [], renderedNodes = [],
               batch = makeEmptyBatch, DJEDI_NODES = 0, window = None,
               objects = (\<lambda>a. []), next_addr = 1, timers = [], next_timer = 1,
               sent = [], inflight = [], invoked = [], warnings = []\<rparr>
      in case host of
           None \<Rightarrow> w
         | Some None \<Rightarrow> w\<lparr>window := Some (Some 1), DJEDI_NODES := 1, next_addr := 2\<rparr>
         | Some (Some ob) \<Rightarrow>
             w\<lparr>window := Some (Some 1), DJEDI_NODES := 1, objects := (objects w)(1 := ob),
               next_addr := 2\<rparr>)"

text \<open>The map an admin overlay reads: \<^verbatim>\<open>window.DJEDI_NODES\<close>, and without a window the
  instance's own \<^verbatim>\<open>_DJEDI_NODES\<close>.\<close>

definition externalMap :: "world \<Rightarrow> (string \<times> jsval) list" where
  "externalMap w =
     (case window w of
        None \<Rightarrow> objects w (DJEDI_NODES w)
      | Some None \<Rightarrow> []
      | Some (Some a) \<Rightarrow> objects w a)"

section \<open>URI helpers of the class\<close>

definition Djedi_parseUri :: "uri_module \<Rightarrow> world \<Rightarrow> string \<Rightarrow> uri_object" where
  "Djedi_parseUri U w u =
     (let uo = uri_opts (options w);
          uriObject = parseUri U u (separators uo)
      in applyUriDefaults U uriObject (defaults uo) (namespaceByScheme uo))"

definition Djedi_stringifyUri :: "uri_module \<Rightarrow> world \<Rightarrow> uri_object \<Rightarrow> string" where
  "Djedi_stringifyUri U w uriObject =
     stringifyUri U uriObject (separators (uri_opts (options w)))"

definition normalizeUri :: "uri_module \<Rightarrow> world \<Rightarrow> string \<Rightarrow> string" where
  "normalizeUri U w u = Djedi_stringifyUri U w (Djedi_parseUri U w u)"

definition normalizeNode :: "uri_module \<Rightarrow> world \<Rightarrow> node \<Rightarrow> node" where
  "normalizeNode U w n = n\<lparr>uri := Djedi_stringifyUri U w (Djedi_parseUri U w (uri n))\<rparr>"

definition djediNodesUri :: "uri_module \<Rightarrow> world \<Rightarrow> string \<Rightarrow> string" where
  "djediNodesUri U w u =
     (let uriObject = Djedi_parseUri U w u
      in Djedi_stringifyUri U w (uriObject\<lparr>version := []\<rparr>))"

section \<open>Loading nodes\<close>

text \<open>\<^verbatim>\<open>callback(x)\<close>.\<close>

definition call :: "callback \<Rightarrow> cb_arg \<Rightarrow> world \<Rightarrow> world" where
  "call cb x w = w\<lparr>invoked := invoked w @ [(cb, x)]\<rparr>"

text \<open>
  \<^verbatim>\<open>missingUriError(uri)\<close>: a new \<^verbatim>\<open>Error\<close> with \<^verbatim>\<open>status = 1404\<close>. The state is needed for
  the identity of the new object, and comes back with that address taken.
\<close>

definition missingUriError :: "string \<Rightarrow> world \<Rightarrow> err \<times> world" where
  "missingUriError u w =
     (\<lparr>eid = next_addr w, message = MissingResult u, status = 1404, responseText = None\<rparr>,
      w\<lparr>next_addr := Suc (next_addr w)\<rparr>)"

text \<open>
  \<^verbatim>\<open>_post(passedUrl, data)\<close> up to the call of \<^verbatim>\<open>unfetch\<close>: the request goes out, and what the
  promise chain will do with the outcome is recorded under the number of the request.
  \<open>k\<close> stands for the handlers attached by the caller.
\<close>

definition post :: "string \<Rightarrow> post_data \<Rightarrow> cont \<Rightarrow> world \<Rightarrow> world" where
  "post passedUrl d k w =
     w\<lparr>sent := sent w @ [\<lparr>url = baseUrl (options w) @ passedUrl, body = JSON_stringify d\<rparr>],
       inflight := inflight w @ [(length (sent w), \<lparr>apiUrl = passedUrl, data = d, cont = k\<rparr>)]\<rparr>"

definition loadMany :: "post_data \<Rightarrow> cont \<Rightarrow> world \<Rightarrow> world" where
  "loadMany ns k w = post ''/djedi/load_many'' ns k w"

text \<open>\<^verbatim>\<open>results[uri]\<close> on an object: \<^verbatim>\<open>undefined\<close> where the property is absent.\<close>

definition get_prop :: "(string \<times> jsval) list \<Rightarrow> string \<Rightarrow> jsval" where
  "get_prop ob k = (case map_of ob k of None \<Rightarrow> Undefined | Some v \<Rightarrow> v)"

definition addNodes :: "uri_module \<Rightarrow> (string \<times> jsval) list \<Rightarrow> world \<Rightarrow> world" where
  "addNodes U ns w =
     fold (\<lambda>u w. let rawNode = \<lparr>uri = u, value = get_prop ns u\<rparr>;
                     n = normalizeNode U w rawNode
                 in w\<lparr>nodes := AList.update (uri n) n (nodes w)\<rparr>)
          (map fst ns) w"

definition get :: "uri_module \<Rightarrow> node \<Rightarrow> callback \<Rightarrow> world \<Rightarrow> world" where
  "get U passedNode callback w =
     (let n = normalizeNode U w passedNode;
          u = uri n
      in case map_of (nodes w) u of
           Some existingNode \<Rightarrow> call callback (GotNode existingNode) w
         | None \<Rightarrow> loadMany (NodeArray [n]) (GetThen u callback) w)"

text \<open>\<^verbatim>\<open>setTimeout(this._flushBatch.bind(this), delay)\<close>: the new timer and its id.\<close>

definition setTimeout :: "int \<Rightarrow> world \<Rightarrow> nat \<times> world" where
  "setTimeout delay w =
     (next_timer w,
      w\<lparr>timers := timers w @ [(next_timer w, delay)], next_timer := Suc (next_timer w)\<rparr>)"

definition clearTimeout :: "nat \<Rightarrow> world \<Rightarrow> world" where
  "clearTimeout t w = w\<lparr>timers := filter (\<lambda>(i, d). i \<noteq> t) (timers w)\<rparr>"

definition getBatched :: "uri_module \<Rightarrow> node \<Rightarrow> callback \<Rightarrow> world \<Rightarrow> world" where
  "getBatched U passedNode callback w =
     (if batchInterval (options w) \<le> 0 then get U passedNode callback w
      else
        let n = normalizeNode U w passedNode in
        case map_of (nodes w) (uri n) of
          Some existingNode \<Rightarrow> call callback (GotNode existingNode) w
        | None \<Rightarrow>
            let previous = (case map_of (queue (batch w)) (uri n) of
                              Some p \<Rightarrow> p
                            | None \<Rightarrow> \<lparr>qnode = n, callbacks = []\<rparr>);
                previous' = previous\<lparr>callbacks := callbacks previous @ [callback]\<rparr>;
                w1 = w\<lparr>batch := (batch w)\<lparr>queue :=
                        AList.update (uri n) previous' (queue (batch w))\<rparr>\<rparr>
            in if timeoutId (batch w1) \<noteq> None then w1
               else
                 let (t, w2) = setTimeout (batchInterval (options w1)) w1
                 in w2\<lparr>batch := (batch w2)\<lparr>timeoutId := Some t\<rparr>\<rparr>)"

definition flushBatch :: "world \<Rightarrow> world" where
  "flushBatch w =
     (let q = queue (batch w);
          ns = fold (\<lambda>(u, d) ns. AList.update u (value (qnode d)) ns) q [];
          w1 = w\<lparr>batch := makeEmptyBatch\<rparr>
      in loadMany (NodeObject ns) (FlushThen q) w1)"

text \<open>A pending timer fires: it leaves the set of pending timers and \<^verbatim>\<open>_flushBatch\<close> runs.\<close>

definition timeout :: "nat \<Rightarrow> world \<Rightarrow> world" where
  "timeout t w =
     (if t \<in> fst ` set (timers w) then flushBatch (clearTimeout t w) else w)"

section \<open>The outcome of a request\<close>

text \<open>
  What \<^verbatim>\<open>unfetch\<close> comes back with: its promise is rejected with some value (rendered
  as text by the template \<^verbatim>\<open>Bad error: ${arg}\<close>), or it yields a response. Of a response
  the code reads the status, the status text, the body as JSON (\<open>None\<close> where
  \<^verbatim>\<open>response.json()\<close> rejects) and the body as text (\<open>None\<close> where \<^verbatim>\<open>response.text()\<close> rejects).
  The JSON of a load is an object of values that are strings or \<^verbatim>\<open>null\<close>.
\<close>

record response =
  r_status :: int
  statusText :: string
  r_json :: "(string \<times> jsval) list option"
  r_text :: "string option"

datatype outcome = Rejected string | Responded response

text \<open>
  The handler \<^verbatim>\<open>_post\<close> passes to \<^verbatim>\<open>catch\<close>, for the error \<open>e\<close> it was rejected with (or made
  from \<^verbatim>\<open>arg\<close>): the message is replaced, \<^verbatim>\<open>status\<close> and \<^verbatim>\<open>responseText\<close> are set. \<open>used\<close> is
  \<^verbatim>\<open>response.bodyUsed\<close>.
\<close>

definition post_catch :: "pending \<Rightarrow> response option \<Rightarrow> bool \<Rightarrow> msg \<Rightarrow> world \<Rightarrow> err \<times> world" where
  "post_catch p resp used m w =
     (\<lparr>eid = next_addr w,
       message = ApiError ''POST'' (apiUrl p) (data p)
                   (map_option (\<lambda>r. (r_status r, statusText r)) resp) m,
       status = (case resp of None \<Rightarrow> - 1 | Some r \<Rightarrow> r_status r),
       responseText = Some (case resp of
                              None \<Rightarrow> []
                            | Some r \<Rightarrow> if used then []
                                        else (case r_text r of Some t \<Rightarrow> t | None \<Rightarrow> []))\<rparr>,
      w\<lparr>next_addr := Suc (next_addr w)\<rparr>)"

text \<open>The promise \<^verbatim>\<open>_post\<close> returns: rejected with an error (\<open>Inl\<close>) or fulfilled with the
  parsed results (\<open>Inr\<close>).\<close>

definition post_settle ::
  "pending \<Rightarrow> outcome \<Rightarrow> world \<Rightarrow> (err + (string \<times> jsval) list) \<times> world" where
  "post_settle p out w =
     (case out of
        Rejected arg \<Rightarrow> (let (e, w') = post_catch p None False (BadError arg) w in (Inl e, w'))
      | Responded r \<Rightarrow>
          if 200 \<le> r_status r \<and> r_status r < 400 then
            (case r_json r of
               Some results \<Rightarrow> (Inr results, w)
             | None \<Rightarrow> (let (e, w') = post_catch p (Some r) True InvalidJson w in (Inl e, w')))
          else (let (e, w') = post_catch p (Some r) False (UnexpectedStatusCode (r_status r)) w
                in (Inl e, w')))"

text \<open>\<^verbatim>\<open>for (const callback of data.callbacks) callback(x)\<close>.\<close>

definition call_all :: "callback list \<Rightarrow> cb_arg \<Rightarrow> world \<Rightarrow> world" where
  "call_all cbs x w = fold (\<lambda>cb. call cb x) cbs w"

text \<open>The two handlers of \<^verbatim>\<open>_flushBatch\<close>, run over the detached queue.\<close>

fun flush_results :: "(string \<times> jsval) list \<Rightarrow> (string \<times> queued) list \<Rightarrow> world \<Rightarrow> world" where
  "flush_results results [] w = w"
| "flush_results results ((u, d) # q) w =
     (let v = get_prop results u;
          (x, w1) = (if v = Undefined \<or> v = Null
                     then (let (e, w') = missingUriError u w in (GotError e, w'))
                     else (GotNode \<lparr>uri = u, value = v\<rparr>, w))
      in flush_results results q (call_all (callbacks d) x w1))"

fun flush_error :: "err \<Rightarrow> (string \<times> queued) list \<Rightarrow> world \<Rightarrow> world" where
  "flush_error error [] w = w"
| "flush_error error ((u, d) # q) w = flush_error error q (call_all (callbacks d) (GotError error) w)"

text \<open>\<^verbatim>\<open>results[uri] || missingUriError(uri)\<close>: the left operand unless it is falsy.\<close>

definition truthy :: "jsval \<Rightarrow> bool" where
  "truthy v = (case v of Undefined \<Rightarrow> False | Null \<Rightarrow> False | Str s \<Rightarrow> s \<noteq> [])"

fun run_cont :: "cont \<Rightarrow> (err + (string \<times> jsval) list) \<Rightarrow> world \<Rightarrow> world" where
  "run_cont (GetThen u callback) (Inr results) w =
     (if truthy (get_prop results u) then call callback (GotValue (get_prop results u)) w
      else (let (e, w') = missingUriError u w in call callback (GotError e) w'))"
| "run_cont (GetThen u callback) (Inl error) w = call callback (GotError error) w"
| "run_cont (FlushThen q) (Inr results) w = flush_results results q w"
| "run_cont (FlushThen q) (Inl error) w = flush_error error q w"

text \<open>
  Request \<open>rid\<close> settles with \<open>out\<close>: the promise of \<^verbatim>\<open>_post\<close> settles, the handler of
  \<^verbatim>\<open>loadMany\<close> adds the results to the cache, and the handlers of the caller run. The
  state of the instance is touched by the last two only, which run back to back.
\<close>

definition respond :: "uri_module \<Rightarrow> nat \<Rightarrow> outcome \<Rightarrow> world \<Rightarrow> world" where
  "respond U rid out w =
     (case map_of (inflight w) rid of
        None \<Rightarrow> w
      | Some p \<Rightarrow>
          let w0 = w\<lparr>inflight := AList.delete rid (inflight w)\<rparr>;
              (res, w1) = post_settle p out w0;
              w2 = (case res of Inr results \<Rightarrow> addNodes U results w1 | Inl error \<Rightarrow> w1)
          in run_cont (cont p) res w2)"

section \<open>Rendered nodes and resets\<close>

text \<open>\<^verbatim>\<open>this._renderedNodes.get(key)\<close>, for the test \<^verbatim>\<open>previous != null\<close>.\<close>

definition rendered_get :: "(mkey \<times> rendered option) list \<Rightarrow> mkey \<Rightarrow> rendered option" where
  "rendered_get m k = (case map_of m k of Some (Some r) \<Rightarrow> Some r | _ \<Rightarrow> None)"

text \<open>
  \<^verbatim>\<open>reportRenderedNode\<close>. The call \<^verbatim>\<open>this._renderedNodes.set({value, numInstances: 1})\<close> has
  one argument: the new object is the key and the value stored is \<^verbatim>\<open>undefined\<close>.
\<close>

definition reportRenderedNode :: "uri_module \<Rightarrow> node \<Rightarrow> world \<Rightarrow> world" where
  "reportRenderedNode U passedNode w =
     (let n = normalizeNode U w passedNode in
      case rendered_get (renderedNodes w) (KString (uri n)) of
        Some previous \<Rightarrow>
          (let w1 = (if r_value previous \<noteq> value n
                     then w\<lparr>warnings := warnings w @ [(uri n, r_value previous, value n)]\<rparr>
                     else w)
           in w1\<lparr>renderedNodes := AList.update (KString (uri n))
                   (Some (previous\<lparr>numInstances := numInstances previous + 1\<rparr>))
                   (renderedNodes w1)\<rparr>)
      | None \<Rightarrow>
          (let key = KObject (next_addr w) \<lparr>r_value = value n, numInstances = 1\<rparr>;
               w1 = w\<lparr>renderedNodes := AList.update key None (renderedNodes w),
                      next_addr := Suc (next_addr w)\<rparr>
           in w1\<lparr>objects := (objects w1)(DJEDI_NODES w1 :=
                   AList.update (djediNodesUri U w1 (uri n)) (value n)
                     (objects w1 (DJEDI_NODES w1)))\<rparr>))"

definition reportRemovedNode :: "uri_module \<Rightarrow> string \<Rightarrow> world \<Rightarrow> world" where
  "reportRemovedNode U passedUri w =
     (let u = normalizeUri U w passedUri in
      case rendered_get (renderedNodes w) (KString u) of
        None \<Rightarrow> w
      | Some previous \<Rightarrow>
          (let previous' = previous\<lparr>numInstances := numInstances previous - 1\<rparr>;
               w1 = w\<lparr>renderedNodes := AList.update (KString u) (Some previous')
                        (renderedNodes w)\<rparr>
           in if numInstances previous' \<le> 0
              then w1\<lparr>renderedNodes := AList.delete (KString u) (renderedNodes w1),
                      objects := (objects w1)(DJEDI_NODES w1 :=
                        AList.delete (djediNodesUri U w1 u) (objects w1 (DJEDI_NODES w1)))\<rparr>
              else w1))"

definition resetOptions :: "world \<Rightarrow> world" where
  "resetOptions w = w\<lparr>options := makeDefaultOptions\<rparr>"

definition resetNodes :: "world \<Rightarrow> world" where
  "resetNodes w =
     (let w0 = (case timeoutId (batch w) of Some t \<Rightarrow> clearTimeout t w | None \<Rightarrow> w);
          a = next_addr w0;
          w1 = w0\<lparr>nodes := [], renderedNodes := [], batch := makeEmptyBatch,
                  DJEDI_NODES := a, objects := (objects w0)(a := []), next_addr := Suc a\<rparr>
      in case window w1 of
           None \<Rightarrow> w1
         | Some x \<Rightarrow> w1\<lparr>window := Some (Some (DJEDI_NODES w1))\<rparr>)"

section \<open>Notions the properties are stated with\<close>

text \<open>The callbacks waiting in a queue, in the order \<^verbatim>\<open>_flushBatch\<close> goes through them.\<close>

definition queued_callbacks :: "(string \<times> queued) list \<Rightarrow> callback list" where
  "queued_callbacks q = concat (map (\<lambda>(u, d). callbacks d) q)"

text \<open>
  The outcomes for which the promise of \<^verbatim>\<open>_post\<close> is rejected: no response, a status
  outside \<^verbatim>\<open>200 <= status < 400\<close>, or a body that is not JSON.
\<close>

definition failed :: "outcome \<Rightarrow> bool" where
  "failed out =
     (case out of
        Rejected arg \<Rightarrow> True
      | Responded r \<Rightarrow>
          (if 200 \<le> r_status r \<and> r_status r < 400 then r_json r = None else True))"

text \<open>
  Ids are handed out in order: a pending timer was set before the next one to be set,
  and a request in flight is in the log of requests.
\<close>

definition ids_fresh :: "world \<Rightarrow> bool" where
  "ids_fresh w =
     (list_all (\<lambda>(i, d). i < next_timer w) (timers w) \<and>
      list_all (\<lambda>(i, p). i < length (sent w)) (inflight w))"

text \<open>
  The URIs the registry of rendered nodes counts at least once, as they appear in the
  externally visible map (version removed): the entries of \<^verbatim>\<open>_renderedNodes\<close> that are
  keyed by a URI and hold a reference count other than zero.
\<close>

fun counted_uri :: "mkey \<times> rendered option \<Rightarrow> string list" where
  "counted_uri (KString u, Some r) = (if numInstances r \<noteq> 0 then [u] else [])"
| "counted_uri (KString u, None) = []"
| "counted_uri (KObject a r, v) = []"

definition registryUris :: "uri_module \<Rightarrow> world \<Rightarrow> string list" where
  "registryUris U w = map (djediNodesUri U w) (concat (map counted_uri (renderedNodes w)))"

text \<open>A request body that is a JSON object, the form of a mapping from URI to value.\<close>

fun json_is_object :: "json \<Rightarrow> bool" where
  "json_is_object (JObject ps) = True"
| "json_is_object j = False"

text \<open>
  An outcome whose status, if there is a response, is an HTTP status code (three digits).
\<close>

definition http_status :: "outcome \<Rightarrow> bool" where
  "http_status out =
     (case out of Rejected arg \<Rightarrow> True | Responded r \<Rightarrow> 100 \<le> r_status r \<and> r_status r \<le> 599)"

text \<open>
  A registry in which every key is an object: what \<^verbatim>\<open>reportRenderedNode\<close> builds.
\<close>

definition object_keyed :: "(mkey \<times> rendered option) list \<Rightarrow> bool" where
  "object_keyed m = list_all (\<lambda>(k, v). case k of KObject a r \<Rightarrow> True | KString u \<Rightarrow> False) m"

text \<open>
  Sequences of the three operations on rendered nodes.
\<close>

datatype node_op = Rendered node | Removed string | Reset

fun apply_op :: "uri_module \<Rightarrow> node_op \<Rightarrow> world \<Rightarrow> world" where
  "apply_op U (Rendered n) w = reportRenderedNode U n w"
| "apply_op U (Removed u) w = reportRemovedNode U u w"
| "apply_op U Reset w = resetNodes w"

definition apply_ops :: "uri_module \<Rightarrow> node_op list \<Rightarrow> world \<Rightarrow> world" where
  "apply_ops U ops w = fold (apply_op U) ops w"

section \<open>Round trip of the URI module\<close>

lemma split_first_append: "split_first sep s = Some (a, b) \<Longrightarrow> s = a @ sep @ b"
proof (induction s arbitrary: a b)
  case Nil
  then show ?case by (simp split: if_splits)
next
  case (Cons c cs)
  show ?case
  proof (cases "take (length sep) (c # cs) = sep")
    case True
    with Cons.prems have "a = []" "b = drop (length sep) (c # cs)" by simp_all
    moreover have "take (length sep) (c # cs) @ drop (length sep) (c # cs) = c # cs"
      by (rule append_take_drop_id)
    ultimately show ?thesis using True by simp
  next
    case False
    with Cons.prems obtain a' where "split_first sep cs = Some (a', b)" "a = c # a'"
      by auto
    with Cons.IH show ?thesis by simp
  qed
qed

lemma split_last_append: "split_last sep s = Some (a, b) \<Longrightarrow> s = a @ sep @ b"
proof -
  assume "split_last sep s = Some (a, b)"
  then have "split_first (rev sep) (rev s) = Some (rev b, rev a)"
    by (auto simp: split_last_def)
  then have "rev s = rev b @ rev sep @ rev a" by (rule split_first_append)
  then have "rev (rev s) = rev (rev b @ rev sep @ rev a)" by simp
  then show ?thesis by simp
qed

lemma spec_roundtrip:
  assumes "scheme (spec_parseUri s seps) \<noteq> None"
    and "namespace (spec_parseUri s seps) \<noteq> None"
    and "ext (spec_parseUri s seps) \<noteq> None"
    and "version (spec_parseUri s seps) \<noteq> None"
  shows "spec_stringifyUri (spec_applyUriDefaults (spec_parseUri s seps) dfl nbs) seps = s"
proof -
  from assms(1) obtain a r1 where 1: "split_first (scheme seps) s = Some (a, r1)"
    by (auto simp: spec_parseUri_def Let_def split: option.splits prod.splits)
  from assms(2) 1 obtain b r2 where 2: "split_first (namespace seps) r1 = Some (b, r2)"
    by (auto simp: spec_parseUri_def Let_def split: option.splits prod.splits)
  from assms(4) 1 2 obtain r3 e where 3: "split_first (version seps) r2 = Some (r3, e)"
    by (auto simp: spec_parseUri_def Let_def split: option.splits prod.splits)
  from assms(3) 1 2 3 obtain c d where 4: "split_last (ext seps) r3 = Some (c, d)"
    by (auto simp: spec_parseUri_def Let_def split: option.splits prod.splits)
  have p: "spec_parseUri s seps =
      \<lparr>scheme = Some a, namespace = Some b, path = Some c, ext = Some d, version = Some e\<rparr>"
    by (simp add: spec_parseUri_def 1 2 3 4)
  have "spec_stringifyUri (spec_applyUriDefaults (spec_parseUri s seps) dfl nbs) seps =
      a @ scheme seps @ b @ namespace seps @ c @ ext seps @ d @ version seps @ e"
    by (simp add: p spec_applyUriDefaults_def spec_stringifyUri_def)
  moreover have "s = a @ scheme seps @ r1" using 1 by (rule split_first_append)
  moreover have "r1 = b @ namespace seps @ r2" using 2 by (rule split_first_append)
  moreover have "r2 = r3 @ version seps @ e" using 3 by (rule split_first_append)
  moreover have "r3 = c @ ext seps @ d" using 4 by (rule split_last_append)
  ultimately show ?thesis by simp
qed

text \<open>
  C9: for every URI string in which all five fields are explicitly present, parsing it
  under the configured separators and stringifying the result gives the string back:
  \<^verbatim>\<open>_normalizeUri\<close> is the identity on such a string. The URI module is the one modelled
  from the specification.
\<close>

theorem parse_stringify_identity:
  assumes "scheme (parseUri specUri s (separators (uri_opts (options w)))) \<noteq> None"
    and "namespace (parseUri specUri s (separators (uri_opts (options w)))) \<noteq> None"
    and "path (parseUri specUri s (separators (uri_opts (options w)))) \<noteq> None"
    and "ext (parseUri specUri s (separators (uri_opts (options w)))) \<noteq> None"
    and "version (parseUri specUri s (separators (uri_opts (options w)))) \<noteq> None"
  shows "normalizeUri specUri w s = s"
proof -
  have sel: "parseUri specUri = spec_parseUri" "applyUriDefaults specUri = spec_applyUriDefaults"
    "stringifyUri specUri = spec_stringifyUri"
    by (simp_all add: specUri_def)
  note a = assms [unfolded sel]
  show ?thesis
    unfolding normalizeUri_def Djedi_stringifyUri_def Djedi_parseUri_def Let_def sel
    by (rule spec_roundtrip [OF a(1) a(2) a(4) a(5)])
qed

lemma default_separators:
  "separators (uri_opts (options (Djedi None))) =
     \<lparr>scheme = ''://'', namespace = ''@'', path = ''/'', ext = ''.'', version = ''#''\<rparr>"
  by (simp add: Djedi_def makeDefaultOptions_def)

lemma parse_example:
  "spec_parseUri ''i18n://en-us@a/b.txt#1''
     \<lparr>scheme = ''://'', namespace = ''@'', path = ''/'', ext = ''.'', version = ''#''\<rparr>
   = \<lparr>scheme = Some ''i18n'', namespace = Some ''en-us'', path = Some ''a/b'',
      ext = Some ''txt'', version = Some ''1''\<rparr>"
  by (simp add: spec_parseUri_def split_last_def)

theorem parse_stringify_identity_witness:
  "normalizeUri specUri (Djedi None) ''i18n://en-us@a/b.txt#1'' = ''i18n://en-us@a/b.txt#1''"
  using parse_stringify_identity [of "''i18n://en-us@a/b.txt#1''" "Djedi None"]
  by (simp add: default_separators specUri_def parse_example)

section \<open>Resetting the options\<close>

text \<open>
  C10: \<^verbatim>\<open>resetOptions\<close> replaces the options by the built-in defaults and leaves the node
  cache, the registry of rendered nodes, the externally visible map, the batch (queue and
  timer id), the pending timers, the requests and the callback log as they are.
\<close>

theorem resetOptions_frame:
  "options (resetOptions w) = makeDefaultOptions \<and>
   nodes (resetOptions w) = nodes w \<and>
   renderedNodes (resetOptions w) = renderedNodes w \<and>
   DJEDI_NODES (resetOptions w) = DJEDI_NODES w \<and>
   window (resetOptions w) = window w \<and>
   objects (resetOptions w) = objects w \<and>
   externalMap (resetOptions w) = externalMap w \<and>
   batch (resetOptions w) = batch w \<and>
   timers (resetOptions w) = timers w \<and>
   sent (resetOptions w) = sent w \<and>
   inflight (resetOptions w) = inflight w \<and>
   invoked (resetOptions w) = invoked w"
  by (simp add: resetOptions_def externalMap_def split: option.splits)

section \<open>Effects of a settled request\<close>

text \<open>Unfolding sets for running the model on concrete inputs.\<close>

lemmas uri_eval = normalizeNode_def normalizeUri_def djediNodesUri_def Djedi_stringifyUri_def
  Djedi_parseUri_def specUri_def spec_parseUri_def spec_applyUriDefaults_def
  spec_stringifyUri_def split_last_def

lemmas op_eval = Djedi_def makeDefaultOptions_def makeEmptyBatch_def get_def getBatched_def
  loadMany_def post_def json_node_def call_def setTimeout_def clearTimeout_def timeout_def
  flushBatch_def Let_def

lemmas respond_eval = respond_def post_settle_def post_catch_def addNodes_def truthy_def
  get_prop_def missingUriError_def call_all_def

lemma call_all_invoked: "invoked (call_all cbs x w) = invoked w @ map (\<lambda>cb. (cb, x)) cbs"
  unfolding call_all_def by (induction cbs arbitrary: w) (simp_all add: call_def)

lemma call_all_frame:
  "batch (call_all cbs x w) = batch w" "timers (call_all cbs x w) = timers w"
  "next_addr (call_all cbs x w) = next_addr w"
  unfolding call_all_def by (induction cbs arbitrary: w) (simp_all add: call_def)

lemma flush_error_invoked:
  "invoked (flush_error e q w) = invoked w @ map (\<lambda>cb. (cb, GotError e)) (queued_callbacks q)"
  by (induction q arbitrary: w) (auto simp: call_all_invoked queued_callbacks_def)

lemma flush_error_frame:
  "batch (flush_error e q w) = batch w" "timers (flush_error e q w) = timers w"
  by (induction q arbitrary: w) (auto simp: call_all_frame)

lemma flush_results_frame:
  "batch (flush_results rs q w) = batch w" "timers (flush_results rs q w) = timers w"
  by (induction q arbitrary: w)
     (auto simp: call_all_frame missingUriError_def Let_def split: prod.splits)

lemma flush_results_invoked:
  "map fst (invoked (flush_results rs q w)) = map fst (invoked w) @ queued_callbacks q"
  by (induction q arbitrary: w)
     (auto simp: call_all_invoked missingUriError_def Let_def queued_callbacks_def comp_def
           split: prod.splits)

lemma addNodes_fold_frame:
  "batch (fold (\<lambda>u w. let rawNode = \<lparr>uri = u, value = get_prop ns u\<rparr>;
                          n = normalizeNode U w rawNode
                      in w\<lparr>nodes := AList.update (uri n) n (nodes w)\<rparr>) us w) = batch w"
  "timers (fold (\<lambda>u w. let rawNode = \<lparr>uri = u, value = get_prop ns u\<rparr>;
                          n = normalizeNode U w rawNode
                      in w\<lparr>nodes := AList.update (uri n) n (nodes w)\<rparr>) us w) = timers w"
  "invoked (fold (\<lambda>u w. let rawNode = \<lparr>uri = u, value = get_prop ns u\<rparr>;
                          n = normalizeNode U w rawNode
                      in w\<lparr>nodes := AList.update (uri n) n (nodes w)\<rparr>) us w) = invoked w"
  "next_addr (fold (\<lambda>u w. let rawNode = \<lparr>uri = u, value = get_prop ns u\<rparr>;
                          n = normalizeNode U w rawNode
                      in w\<lparr>nodes := AList.update (uri n) n (nodes w)\<rparr>) us w) = next_addr w"
  by (induction us arbitrary: w) (simp_all add: Let_def)

lemma addNodes_frame:
  "batch (addNodes U ns w) = batch w" "timers (addNodes U ns w) = timers w"
  "invoked (addNodes U ns w) = invoked w" "next_addr (addNodes U ns w) = next_addr w"
  unfolding addNodes_def by (rule addNodes_fold_frame)+

lemma post_settle_frame:
  "batch (snd (post_settle p out w)) = batch w"
  "timers (snd (post_settle p out w)) = timers w"
  "invoked (snd (post_settle p out w)) = invoked w"
  by (simp_all add: post_settle_def post_catch_def split: outcome.splits option.splits)

lemma post_settle_failed:
  "failed out \<Longrightarrow> \<exists>e. fst (post_settle p out w) = Inl e"
  by (auto simp: failed_def post_settle_def post_catch_def split: outcome.splits option.splits if_splits)

lemma post_settle_ok:
  "200 \<le> r_status r \<Longrightarrow> r_status r < 400 \<Longrightarrow> r_json r = Some results \<Longrightarrow>
   post_settle p (Responded r) w = (Inr results, w)"
  by (simp add: post_settle_def)

lemma run_cont_frame:
  "batch (run_cont k res w) = batch w" "timers (run_cont k res w) = timers w"
  by (cases k; cases res;
      simp add: flush_error_frame flush_results_frame call_def missingUriError_def)+

lemma respond_unfold:
  "map_of (inflight w) rid = Some p \<Longrightarrow>
   respond U rid out w =
     (let w0 = w\<lparr>inflight := AList.delete rid (inflight w)\<rparr>;
          res = fst (post_settle p out w0); w1 = snd (post_settle p out w0);
          w2 = (case res of Inr results \<Rightarrow> addNodes U results w1 | Inl error \<Rightarrow> w1)
      in run_cont (cont p) res w2)"
  by (simp add: respond_def Let_def case_prod_beta)

lemma respond_frame:
  "batch (respond U rid out w) = batch w" "timers (respond U rid out w) = timers w"
proof -
  show "batch (respond U rid out w) = batch w"
  proof (cases "map_of (inflight w) rid")
    case None
    then show ?thesis by (simp add: respond_def)
  next
    case (Some p)
    then show ?thesis
      by (simp add: respond_unfold Let_def run_cont_frame addNodes_frame post_settle_frame
          split: sum.splits)
  qed
  show "timers (respond U rid out w) = timers w"
  proof (cases "map_of (inflight w) rid")
    case None
    then show ?thesis by (simp add: respond_def)
  next
    case (Some p)
    then show ?thesis
      by (simp add: respond_unfold Let_def run_cont_frame addNodes_frame post_settle_frame
          split: sum.splits)
  qed
qed

section \<open>A batch whose request fails\<close>

text \<open>
  C6: if the load request of a batch fails, one and the same error object is passed to
  every callback queued in that batch, across all queued URIs. The request is in flight
  with the handlers of \<^verbatim>\<open>_flushBatch\<close> over the detached queue \<open>q\<close>; the calls added to
  the log are the queued callbacks in order, each with the error \<open>e\<close>.
\<close>

theorem batch_failure_same_error:
  assumes "map_of (inflight w) rid = Some p" and "cont p = FlushThen q" and "failed out"
  shows "\<exists>e. invoked (respond U rid out w) =
               invoked w @ map (\<lambda>cb. (cb, GotError e)) (queued_callbacks q)"
proof -
  let ?w0 = "w\<lparr>inflight := AList.delete rid (inflight w)\<rparr>"
  from assms(3) obtain e where e: "fst (post_settle p out ?w0) = Inl e"
    using post_settle_failed by blast
  have "invoked (respond U rid out w) =
        invoked w @ map (\<lambda>cb. (cb, GotError e)) (queued_callbacks q)"
    using assms(1,2) e
    by (simp add: respond_unfold Let_def flush_error_invoked post_settle_frame)
  then show ?thesis ..
qed

theorem batch_failure_same_error_witness:
  "failed (Rejected ''TypeError: Failed to fetch'') \<and>
   (\<exists>e. invoked (respond specUri 0 (Rejected ''TypeError: Failed to fetch'')
          (timeout 1 (getBatched specUri \<lparr>uri = ''b'', value = Str ''x''\<rparr> 3
            (getBatched specUri \<lparr>uri = ''b'', value = Str ''x''\<rparr> 2
              (getBatched specUri \<lparr>uri = ''a'', value = Str ''y''\<rparr> 1 (Djedi None))))))
      = map (\<lambda>cb. (cb, GotError e)) [1, 2, 3])"
proof -
  let ?w = "timeout 1 (getBatched specUri \<lparr>uri = ''b'', value = Str ''x''\<rparr> 3
            (getBatched specUri \<lparr>uri = ''b'', value = Str ''x''\<rparr> 2
              (getBatched specUri \<lparr>uri = ''a'', value = Str ''y''\<rparr> 1 (Djedi None))))"
  let ?q = "[(''i18n://en-us@a.txt#'',
               \<lparr>qnode = \<lparr>uri = ''i18n://en-us@a.txt#'', value = Str ''y''\<rparr>, callbacks = [1]\<rparr>),
             (''i18n://en-us@b.txt#'',
               \<lparr>qnode = \<lparr>uri = ''i18n://en-us@b.txt#'', value = Str ''x''\<rparr>,
                  callbacks = [2, 3]\<rparr>)]"
  let ?p = "\<lparr>apiUrl = ''/djedi/load_many'',
             data = NodeObject [(''i18n://en-us@a.txt#'', Str ''y''),
                                (''i18n://en-us@b.txt#'', Str ''x'')],
             cont = FlushThen ?q\<rparr>"
  have 1: "map_of (inflight ?w) 0 = Some ?p"
    by (simp add: uri_eval op_eval)
  have 2: "cont ?p = FlushThen ?q" by simp
  have 3: "failed (Rejected ''TypeError: Failed to fetch'')" by (simp add: failed_def)
  have 4: "invoked ?w = []" by (simp add: uri_eval op_eval)
  have 5: "queued_callbacks ?q = [1, 2, 3]" by (simp add: queued_callbacks_def)
  show ?thesis
    using batch_failure_same_error [OF 1 2 3, of specUri] 3 unfolding 4 5 by simp
qed

section \<open>Single lookups\<close>

text \<open>
  C4: what \<^verbatim>\<open>get\<close> posts for an uncached node. On a new instance no node is cached, so
  every \<^verbatim>\<open>get\<close> issues a load: one request to \<^verbatim>\<open>/djedi/load_many\<close> whose body is the
  array \<^verbatim>\<open>[node]\<close> holding the normalised node as an object with the properties \<^verbatim>\<open>uri\<close>
  and \<^verbatim>\<open>value\<close>. The body is not a JSON object from URI to default value, the form
  \<^verbatim>\<open>_flushBatch\<close> sends to the same endpoint.
\<close>

theorem get_posts_node_array:
  "sent (get U n cb (Djedi host)) =
     [\<lparr>url = ''/djedi/load_many'',
       body = JArray [json_node (normalizeNode U (Djedi host) n)]\<rparr>] \<and>
   \<not> json_is_object (body (last (sent (get U n cb (Djedi host)))))"
  by (cases host rule: option.exhaust [case_product option.exhaust])
     (simp_all add: get_def Djedi_def loadMany_def post_def Let_def makeDefaultOptions_def
        split: option.splits)

text \<open>
  C5, as stated, fails: the response below does not omit the requested URI (it maps it
  to \<^verbatim>\<open>null\<close>), the request succeeded, and the callback receives the missing-URI error.
\<close>

theorem get_null_value_counterexample:
  "''i18n://en-us@b.txt#'' \<in> fst ` set [(''i18n://en-us@b.txt#'', Null)] \<and>
   invoked (respond specUri 0
      (Responded \<lparr>r_status = 200, statusText = ''OK'',
                  r_json = Some [(''i18n://en-us@b.txt#'', Null)], r_text = None\<rparr>)
      (get specUri \<lparr>uri = ''b'', value = Str ''x''\<rparr> 7 (Djedi None))) =
     [(7, GotError \<lparr>eid = 1, message = MissingResult ''i18n://en-us@b.txt#'',
                    status = 1404, responseText = None\<rparr>)]"
  by (simp add: uri_eval op_eval respond_eval)

lemma post_settle_status:
  "fst (post_settle p out w) = Inl e \<Longrightarrow>
   status e = (case out of Rejected arg \<Rightarrow> - 1 | Responded r \<Rightarrow> r_status r)"
  by (auto simp: post_settle_def post_catch_def split: outcome.splits option.splits if_splits)

text \<open>
  C5, amended: when the load request of \<^verbatim>\<open>get\<close> succeeds, the callback receives the
  missing-URI error, a new error with status 1404, if the response omits the requested
  URI or maps it to \<^verbatim>\<open>null\<close>, and receives the value the response holds for the URI if that
  value is a non-empty string. Status 1404 differs from the status of every error
  \<^verbatim>\<open>_post\<close> rejects with: that is \<^verbatim>\<open>-1\<close> without a response and the HTTP status of the
  response otherwise.
\<close>

theorem get_success_callback:
  assumes "map_of (inflight w) rid = Some p" and "cont p = GetThen u cb"
    and "200 \<le> r_status r" and "r_status r < 400" and "r_json r = Some results"
  shows "(map_of results u = None \<or> map_of results u = Some Null \<longrightarrow>
            invoked (respond U rid (Responded r) w) =
              invoked w @ [(cb, GotError \<lparr>eid = next_addr w, message = MissingResult u,
                                         status = 1404, responseText = None\<rparr>)]) \<and>
         (\<forall>s. map_of results u = Some (Str s) \<and> s \<noteq> [] \<longrightarrow>
            invoked (respond U rid (Responded r) w) = invoked w @ [(cb, GotValue (Str s))]) \<and>
         (\<forall>out e w'. fst (post_settle p out w') = Inl e \<and> http_status out \<longrightarrow>
            status e \<noteq> 1404)"
proof (intro conjI impI allI)
  let ?w0 = "w\<lparr>inflight := AList.delete rid (inflight w)\<rparr>"
  have ps: "post_settle p (Responded r) ?w0 = (Inr results, ?w0)"
    using assms(3-5) by (rule post_settle_ok)
  have r: "respond U rid (Responded r) w = run_cont (GetThen u cb) (Inr results) (addNodes U results ?w0)"
    using assms(1,2) by (simp add: respond_unfold ps)
  {
    assume "map_of results u = None \<or> map_of results u = Some Null"
    then have "\<not> truthy (get_prop results u)" by (auto simp: truthy_def get_prop_def)
    then show "invoked (respond U rid (Responded r) w) =
              invoked w @ [(cb, GotError \<lparr>eid = next_addr w, message = MissingResult u,
                                         status = 1404, responseText = None\<rparr>)]"
      by (simp add: r missingUriError_def call_def addNodes_frame)
  }
  {
    fix s assume "map_of results u = Some (Str s) \<and> s \<noteq> []"
    then have "truthy (get_prop results u)" "get_prop results u = Str s"
      by (auto simp: truthy_def get_prop_def)
    then show "invoked (respond U rid (Responded r) w) = invoked w @ [(cb, GotValue (Str s))]"
      by (simp add: r call_def addNodes_frame)
  }
  {
    fix out e w' assume a: "fst (post_settle p out w') = Inl e \<and> http_status out"
    then have "status e = (case out of Rejected arg \<Rightarrow> - 1 | Responded r \<Rightarrow> r_status r)"
      using post_settle_status by blast
    with a show "status e \<noteq> 1404"
      by (auto simp: http_status_def split: outcome.splits)
  }
qed

theorem get_success_callback_witness:
  "invoked (respond specUri 0
      (Responded \<lparr>r_status = 200, statusText = ''OK'', r_json = Some [], r_text = None\<rparr>)
      (get specUri \<lparr>uri = ''b'', value = Str ''x''\<rparr> 7 (Djedi None))) =
     [(7, GotError \<lparr>eid = 1, message = MissingResult ''i18n://en-us@b.txt#'',
                    status = 1404, responseText = None\<rparr>)] \<and>
   invoked (respond specUri 0
      (Responded \<lparr>r_status = 200, statusText = ''OK'',
                  r_json = Some [(''i18n://en-us@b.txt#'', Str ''hello'')], r_text = None\<rparr>)
      (get specUri \<lparr>uri = ''b'', value = Str ''x''\<rparr> 7 (Djedi None))) =
     [(7, GotValue (Str ''hello''))] \<and>
   http_status (Responded \<lparr>r_status = 500, statusText = ''Internal Server Error'',
                            r_json = None, r_text = Some ''oops''\<rparr>) \<and>
   (\<exists>e. fst (post_settle
         \<lparr>apiUrl = ''/djedi/load_many'',
          data = NodeArray [\<lparr>uri = ''i18n://en-us@b.txt#'', value = Str ''x''\<rparr>],
          cont = GetThen ''i18n://en-us@b.txt#'' 7\<rparr>
         (Responded \<lparr>r_status = 500, statusText = ''Internal Server Error'',
                     r_json = None, r_text = Some ''oops''\<rparr>)
         (Djedi None)) = Inl e \<and> status e = 500 \<and> status e \<noteq> 1404)"
proof -
  let ?W = "get specUri \<lparr>uri = ''b'', value = Str ''x''\<rparr> 7 (Djedi None)"
  let ?u = "''i18n://en-us@b.txt#''"
  let ?P = "\<lparr>apiUrl = ''/djedi/load_many'',
             data = NodeArray [\<lparr>uri = ?u, value = Str ''x''\<rparr>], cont = GetThen ?u 7\<rparr>"
  let ?R1 = "\<lparr>r_status = 200, statusText = ''OK'', r_json = Some [], r_text = None\<rparr>"
  let ?R2 = "\<lparr>r_status = 200, statusText = ''OK'',
              r_json = Some [(?u, Str ''hello'')], r_text = None\<rparr>"
  let ?R3 = "\<lparr>r_status = 500, statusText = ''Internal Server Error'',
              r_json = None, r_text = Some ''oops''\<rparr>"
  have 1: "map_of (inflight ?W) 0 = Some ?P" by (simp add: uri_eval op_eval)
  have 2: "cont ?P = GetThen ?u 7" by simp
  have 3: "invoked ?W = []" "next_addr ?W = 1" by (simp_all add: uri_eval op_eval)
  have a: "invoked (respond specUri 0 (Responded ?R1) ?W) =
      [(7, GotError \<lparr>eid = 1, message = MissingResult ?u, status = 1404,
                     responseText = None\<rparr>)]"
    using get_success_callback [OF 1 2, of ?R1 "[]" specUri] unfolding 3 by simp
  have b: "invoked (respond specUri 0 (Responded ?R2) ?W) = [(7, GotValue (Str ''hello''))]"
    using get_success_callback [OF 1 2, of ?R2 "[(?u, Str ''hello'')]" specUri] unfolding 3
    by simp
  have h: "http_status (Responded ?R3)" by (simp add: http_status_def)
  obtain e where e: "fst (post_settle ?P (Responded ?R3) (Djedi None)) = Inl e" "status e = 500"
    by (simp add: post_settle_def post_catch_def)
  have "\<forall>out e w'. fst (post_settle ?P out w') = Inl e \<and> http_status out \<longrightarrow>
      status e \<noteq> 1404"
    using get_success_callback [OF 1 2, of ?R1 "[]" specUri] by simp
  with e(1) h have "status e \<noteq> 1404" by blast
  with a b h e show ?thesis by blast
qed

section \<open>Batched lookups\<close>

text \<open>
  C1: two \<^verbatim>\<open>getBatched\<close> calls for the distinct uncached URIs \<^verbatim>\<open>a\<close> and \<^verbatim>\<open>b\<close> on a new
  instance (batch interval 50), the first node without a default value; then the timer
  fires. Exactly one request is issued and both URIs are in the detached queue, but the
  body of the request holds the URI of \<^verbatim>\<open>b\<close> only: \<^verbatim>\<open>nodes[uri] = data.node.value\<close> stores
  \<^verbatim>\<open>undefined\<close> for \<^verbatim>\<open>a\<close>, and \<^verbatim>\<open>JSON.stringify\<close> leaves that property out.
\<close>

theorem batched_body_drops_node_without_default:
  "sent (timeout 1 (getBatched specUri \<lparr>uri = ''b'', value = Str ''x''\<rparr> 2
           (getBatched specUri \<lparr>uri = ''a'', value = Undefined\<rparr> 1 (Djedi None)))) =
     [\<lparr>url = ''/djedi/load_many'',
       body = JObject [(''i18n://en-us@b.txt#'', JString ''x'')]\<rparr>] \<and>
   inflight (timeout 1 (getBatched specUri \<lparr>uri = ''b'', value = Str ''x''\<rparr> 2
           (getBatched specUri \<lparr>uri = ''a'', value = Undefined\<rparr> 1 (Djedi None)))) =
     [(0, \<lparr>apiUrl = ''/djedi/load_many'',
           data = NodeObject [(''i18n://en-us@a.txt#'', Undefined),
                              (''i18n://en-us@b.txt#'', Str ''x'')],
           cont = FlushThen
             [(''i18n://en-us@a.txt#'',
               \<lparr>qnode = \<lparr>uri = ''i18n://en-us@a.txt#'', value = Undefined\<rparr>,
                  callbacks = [1]\<rparr>),
              (''i18n://en-us@b.txt#'',
               \<lparr>qnode = \<lparr>uri = ''i18n://en-us@b.txt#'', value = Str ''x''\<rparr>,
                  callbacks = [2]\<rparr>)]\<rparr>)]"
  by (simp add: uri_eval op_eval)

lemma normalizeNode_options:
  "options w' = options w \<Longrightarrow> normalizeNode U w' n = normalizeNode U w n"
  by (simp add: normalizeNode_def Djedi_stringifyUri_def Djedi_parseUri_def)

lemma timeout_fields:
  assumes "t \<in> fst ` set (timers w)"
  shows "options (timeout t w) = options w" "nodes (timeout t w) = nodes w"
    "batch (timeout t w) = makeEmptyBatch"
    "timers (timeout t w) = filter (\<lambda>(i, d). i \<noteq> t) (timers w)"
    "next_timer (timeout t w) = next_timer w"
    "sent (timeout t w) = sent w @
       [\<lparr>url = baseUrl (options w) @ ''/djedi/load_many'',
         body = JSON_stringify (NodeObject
            (fold (\<lambda>(u, d) ns. AList.update u (value (qnode d)) ns) (queue (batch w)) []))\<rparr>]"
    "inflight (timeout t w) = inflight w @
       [(length (sent w),
         \<lparr>apiUrl = ''/djedi/load_many'',
          data = NodeObject
            (fold (\<lambda>(u, d) ns. AList.update u (value (qnode d)) ns) (queue (batch w)) []),
          cont = FlushThen (queue (batch w))\<rparr>)]"
    "invoked (timeout t w) = invoked w"
  using assms
  by (simp_all add: timeout_def flushBatch_def clearTimeout_def loadMany_def post_def Let_def)

lemma getBatched_fresh_batch:
  assumes "0 < batchInterval (options w)" and "map_of (nodes w) (uri (normalizeNode U w n)) = None"
    and "batch w = makeEmptyBatch"
  shows "batch (getBatched U n cb w) =
           \<lparr>timeoutId = Some (next_timer w),
            queue = [(uri (normalizeNode U w n),
                      \<lparr>qnode = normalizeNode U w n, callbacks = [cb]\<rparr>)]\<rparr>"
    "timers (getBatched U n cb w) = timers w @ [(next_timer w, batchInterval (options w))]"
    "sent (getBatched U n cb w) = sent w" "inflight (getBatched U n cb w) = inflight w"
    "invoked (getBatched U n cb w) = invoked w" "options (getBatched U n cb w) = options w"
    "next_timer (getBatched U n cb w) = Suc (next_timer w)"
  using assms
  by (simp_all add: getBatched_def Let_def makeEmptyBatch_def setTimeout_def)

lemma respond_flush_invoked:
  assumes "map_of (inflight w) rid = Some p" and "cont p = FlushThen q"
  shows "map fst (invoked (respond U rid out w)) = map fst (invoked w) @ queued_callbacks q"
proof (cases "fst (post_settle p out (w\<lparr>inflight := AList.delete rid (inflight w)\<rparr>))")
  case (Inl e)
  with assms show ?thesis
    by (simp add: respond_unfold Let_def flush_error_invoked post_settle_frame comp_def)
next
  case (Inr rs)
  with assms show ?thesis
    by (simp add: respond_unfold Let_def flush_results_invoked addNodes_frame post_settle_frame)
qed

lemma map_of_fresh_key:
  "list_all (\<lambda>(i, p). i < m) xs \<Longrightarrow> map_of xs (m::nat) = None"
  by (induction xs) auto

lemma fresh_timer_not_pending:
  "list_all (\<lambda>(i, d). i < m) ts \<Longrightarrow> t \<in> fst ` set ts \<Longrightarrow> (m::nat) \<noteq> t"
  by (induction ts) auto

text \<open>
  C7: the timer \<open>t\<close> of the current batch fires, and before the response arrives
  \<^verbatim>\<open>getBatched\<close> is called for an uncached node. The call finds an empty batch: afterwards
  the queue holds that node and callback alone, under a new timer that is pending and
  differs from \<open>t\<close>, which is no longer pending. The request of the earlier flush is in
  flight with the detached queue. Whatever request settles, with whatever outcome, the
  new batch and the pending timers stay as they are, and the outcome of the earlier
  flush is delivered to the callbacks of the detached queue and to no other.
\<close>

theorem new_batch_independent:
  assumes "0 < batchInterval (options w)"
    and "timeoutId (batch w) = Some t" and "t \<in> fst ` set (timers w)"
    and "ids_fresh w"
    and "map_of (nodes w) (uri (normalizeNode U w n)) = None"
    and "w2 = getBatched U n cb (timeout t w)"
  shows "batch w2 = \<lparr>timeoutId = Some (next_timer w),
                     queue = [(uri (normalizeNode U w n),
                               \<lparr>qnode = normalizeNode U w n, callbacks = [cb]\<rparr>)]\<rparr> \<and>
         next_timer w \<noteq> t \<and> next_timer w \<in> fst ` set (timers w2) \<and>
         t \<notin> fst ` set (timers w2) \<and>
         (\<exists>p. map_of (inflight w2) (length (sent w)) = Some p \<and>
              cont p = FlushThen (queue (batch w))) \<and>
         (\<forall>rid out. batch (respond U rid out w2) = batch w2 \<and>
                    timers (respond U rid out w2) = timers w2) \<and>
         (\<forall>out. map fst (invoked (respond U (length (sent w)) out w2)) =
                  map fst (invoked w) @ queued_callbacks (queue (batch w)))"
proof -
  let ?w1 = "timeout t w"
  note tf = timeout_fields [OF assms(3)]
  have nn: "normalizeNode U ?w1 n = normalizeNode U w n"
    by (rule normalizeNode_options) (rule tf(1))
  have pre: "0 < batchInterval (options ?w1)"
    "map_of (nodes ?w1) (uri (normalizeNode U ?w1 n)) = None" "batch ?w1 = makeEmptyBatch"
    using assms(1,5) by (simp_all add: tf nn)
  note gf = getBatched_fresh_batch [OF pre, of cb, folded assms(6), unfolded nn tf]
  have fresh: "list_all (\<lambda>(i, d). i < next_timer w) (timers w)"
    "list_all (\<lambda>(i, p). i < length (sent w)) (inflight w)"
    using assms(4) by (simp_all add: ids_fresh_def)
  have b: "batch w2 = \<lparr>timeoutId = Some (next_timer w),
                     queue = [(uri (normalizeNode U w n),
                               \<lparr>qnode = normalizeNode U w n, callbacks = [cb]\<rparr>)]\<rparr>"
    by (rule gf(1))
  have ne: "next_timer w \<noteq> t"
    using fresh(1) assms(3) by (rule fresh_timer_not_pending)
  have t1: "next_timer w \<in> fst ` set (timers w2)"
    by (simp add: gf(2))
  have t2: "t \<notin> fst ` set (timers w2)"
    using ne by (auto simp: gf(2))
  let ?p = "\<lparr>apiUrl = ''/djedi/load_many'',
          data = NodeObject
            (fold (\<lambda>(u, d) ns. AList.update u (value (qnode d)) ns) (queue (batch w)) []),
          cont = FlushThen (queue (batch w))\<rparr>"
  have fl: "map_of (inflight w2) (length (sent w)) = Some ?p"
    by (simp add: gf(4) map_add_def map_of_fresh_key [OF fresh(2)])
  have c: "cont ?p = FlushThen (queue (batch w))" by simp
  have inv: "invoked w2 = invoked w" by (simp add: gf(5))
  have "\<forall>out. map fst (invoked (respond U (length (sent w)) out w2)) =
                  map fst (invoked w) @ queued_callbacks (queue (batch w))"
    using respond_flush_invoked [OF fl c, of U] by (simp add: inv)
  with b ne t1 t2 fl c show ?thesis
    by (simp add: respond_frame)
qed

theorem new_batch_independent_witness:
  "0 < batchInterval (options (getBatched specUri \<lparr>uri = ''a'', value = Str ''y''\<rparr> 1 (Djedi None))) \<and>
   timeoutId (batch (getBatched specUri \<lparr>uri = ''a'', value = Str ''y''\<rparr> 1 (Djedi None))) = Some 1 \<and>
   ids_fresh (getBatched specUri \<lparr>uri = ''a'', value = Str ''y''\<rparr> 1 (Djedi None)) \<and>
   batch (getBatched specUri \<lparr>uri = ''b'', value = Str ''x''\<rparr> 2
           (timeout 1 (getBatched specUri \<lparr>uri = ''a'', value = Str ''y''\<rparr> 1 (Djedi None)))) =
     \<lparr>timeoutId = Some 2,
      queue = [(''i18n://en-us@b.txt#'',
                \<lparr>qnode = \<lparr>uri = ''i18n://en-us@b.txt#'', value = Str ''x''\<rparr>,
                 callbacks = [2]\<rparr>)]\<rparr> \<and>
   batch (respond specUri 0 (Rejected ''TypeError: Failed to fetch'')
           (getBatched specUri \<lparr>uri = ''b'', value = Str ''x''\<rparr> 2
             (timeout 1 (getBatched specUri \<lparr>uri = ''a'', value = Str ''y''\<rparr> 1 (Djedi None))))) =
     \<lparr>timeoutId = Some 2,
      queue = [(''i18n://en-us@b.txt#'',
                \<lparr>qnode = \<lparr>uri = ''i18n://en-us@b.txt#'', value = Str ''x''\<rparr>,
                 callbacks = [2]\<rparr>)]\<rparr> \<and>
   map fst (invoked (respond specUri 0 (Rejected ''TypeError: Failed to fetch'')
           (getBatched specUri \<lparr>uri = ''b'', value = Str ''x''\<rparr> 2
             (timeout 1 (getBatched specUri \<lparr>uri = ''a'', value = Str ''y''\<rparr> 1 (Djedi None)))))) = [1]"
proof -
  let ?W = "getBatched specUri \<lparr>uri = ''a'', value = Str ''y''\<rparr> 1 (Djedi None)"
  let ?n = "\<lparr>uri = ''b'', value = Str ''x''\<rparr>"
  let ?w2 = "getBatched specUri ?n 2 (timeout 1 ?W)"
  have 1: "0 < batchInterval (options ?W)" by (simp add: uri_eval op_eval)
  have 2: "timeoutId (batch ?W) = Some 1" by (simp add: uri_eval op_eval)
  have 3: "1 \<in> fst ` set (timers ?W)" by (simp add: uri_eval op_eval)
  have 4: "ids_fresh ?W" by (simp add: ids_fresh_def uri_eval op_eval)
  have 5: "map_of (nodes ?W) (uri (normalizeNode specUri ?W ?n)) = None"
    by (simp add: uri_eval op_eval)
  have 6: "?w2 = getBatched specUri ?n 2 (timeout 1 ?W)" by (rule refl)
  have v: "next_timer ?W = 2" "sent ?W = []" "invoked ?W = []"
    "normalizeNode specUri ?W ?n = \<lparr>uri = ''i18n://en-us@b.txt#'', value = Str ''x''\<rparr>"
    "queued_callbacks (queue (batch ?W)) = [1]"
    by (simp_all add: uri_eval op_eval queued_callbacks_def)
  note t = new_batch_independent [OF 1 2 3 4 5 6, unfolded v]
  from t have b: "batch ?w2 = \<lparr>timeoutId = Some 2,
      queue = [(''i18n://en-us@b.txt#'',
                \<lparr>qnode = \<lparr>uri = ''i18n://en-us@b.txt#'', value = Str ''x''\<rparr>,
                 callbacks = [2]\<rparr>)]\<rparr>"
    by simp
  from t have "batch (respond specUri 0 (Rejected ''TypeError: Failed to fetch'') ?w2) = batch ?w2"
    by blast
  moreover from t have
    "map fst (invoked (respond specUri 0 (Rejected ''TypeError: Failed to fetch'') ?w2)) = [1]"
    by simp
  ultimately show ?thesis using 1 2 4 b by simp
qed

text \<open>
  Two calls in one window, in general: the window opens with the first call, both URIs
  are uncached and differ after normalisation. One timer is set; when it fires, one
  request goes out, its data maps both URIs to the default values of the nodes, and its
  body holds the properties of that object that \<^verbatim>\<open>JSON.stringify\<close> keeps.
\<close>

lemma normalizeNode_value: "value (normalizeNode U w n) = value n"
  by (simp add: normalizeNode_def)

lemma getBatched_pending_batch:
  assumes "0 < batchInterval (options w)" and "map_of (nodes w) (uri (normalizeNode U w n)) = None"
    and "timeoutId (batch w) = Some t"
  shows "batch (getBatched U n cb w) =
           (batch w)\<lparr>queue := AList.update (uri (normalizeNode U w n))
              ((case map_of (queue (batch w)) (uri (normalizeNode U w n)) of
                  Some p \<Rightarrow> p
                | None \<Rightarrow> \<lparr>qnode = normalizeNode U w n, callbacks = []\<rparr>)
               \<lparr>callbacks := callbacks
                  (case map_of (queue (batch w)) (uri (normalizeNode U w n)) of
                     Some p \<Rightarrow> p
                   | None \<Rightarrow> \<lparr>qnode = normalizeNode U w n, callbacks = []\<rparr>) @ [cb]\<rparr>)
              (queue (batch w))\<rparr>"
    "timers (getBatched U n cb w) = timers w"
    "sent (getBatched U n cb w) = sent w" "inflight (getBatched U n cb w) = inflight w"
    "invoked (getBatched U n cb w) = invoked w" "options (getBatched U n cb w) = options w"
    "next_timer (getBatched U n cb w) = next_timer w" "nodes (getBatched U n cb w) = nodes w"
  using assms
  by (simp_all add: getBatched_def Let_def)

lemma two_batched_calls_one_request:
  assumes "0 < batchInterval (options w)" and "batch w = makeEmptyBatch"
    and "map_of (nodes w) (uri (normalizeNode U w n1)) = None"
    and "map_of (nodes w) (uri (normalizeNode U w n2)) = None"
    and "uri (normalizeNode U w n1) \<noteq> uri (normalizeNode U w n2)"
    and "w2 = getBatched U n2 cb2 (getBatched U n1 cb1 w)"
  shows "sent w2 = sent w"
    and "timers w2 = timers w @ [(next_timer w, batchInterval (options w))]"
    and "sent (timeout (next_timer w) w2) = sent w @
           [\<lparr>url = baseUrl (options w) @ ''/djedi/load_many'',
             body = JObject (json_props [(uri (normalizeNode U w n1), value n1),
                                         (uri (normalizeNode U w n2), value n2)])\<rparr>]"
    and "inflight (timeout (next_timer w) w2) = inflight w @
           [(length (sent w),
             \<lparr>apiUrl = ''/djedi/load_many'',
              data = NodeObject [(uri (normalizeNode U w n1), value n1),
                                 (uri (normalizeNode U w n2), value n2)],
              cont = FlushThen
                [(uri (normalizeNode U w n1), \<lparr>qnode = normalizeNode U w n1, callbacks = [cb1]\<rparr>),
                 (uri (normalizeNode U w n2), \<lparr>qnode = normalizeNode U w n2, callbacks = [cb2]\<rparr>)]\<rparr>)]"
proof -
  let ?w1 = "getBatched U n1 cb1 w"
  note g1 = getBatched_fresh_batch [OF assms(1,3,2), of cb1]
  have nodes1: "nodes ?w1 = nodes w"
    using assms(1,2,3) by (simp add: getBatched_def Let_def makeEmptyBatch_def setTimeout_def)
  have nn: "normalizeNode U ?w1 n2 = normalizeNode U w n2"
    by (rule normalizeNode_options) (rule g1(6))
  have pre: "0 < batchInterval (options ?w1)"
    "map_of (nodes ?w1) (uri (normalizeNode U ?w1 n2)) = None"
    "timeoutId (batch ?w1) = Some (next_timer w)"
    using assms(1,4) by (simp_all add: g1 nn nodes1)
  note g2 = getBatched_pending_batch [OF pre, of cb2, folded assms(6), unfolded nn g1]
  have q: "queue (batch w2) =
      [(uri (normalizeNode U w n1), \<lparr>qnode = normalizeNode U w n1, callbacks = [cb1]\<rparr>),
       (uri (normalizeNode U w n2), \<lparr>qnode = normalizeNode U w n2, callbacks = [cb2]\<rparr>)]"
    using assms(5) by (simp add: g2(1))
  show "sent w2 = sent w" by (rule g2(3))
  show t: "timers w2 = timers w @ [(next_timer w, batchInterval (options w))]" by (rule g2(2))
  have p: "next_timer w \<in> fst ` set (timers w2)" by (simp add: t)
  note tf = timeout_fields [OF p, unfolded q g2]
  show "sent (timeout (next_timer w) w2) = sent w @
           [\<lparr>url = baseUrl (options w) @ ''/djedi/load_many'',
             body = JObject (json_props [(uri (normalizeNode U w n1), value n1),
                                         (uri (normalizeNode U w n2), value n2)])\<rparr>]"
    using assms(5) by (simp add: tf(6) normalizeNode_value)
  show "inflight (timeout (next_timer w) w2) = inflight w @
           [(length (sent w),
             \<lparr>apiUrl = ''/djedi/load_many'',
              data = NodeObject [(uri (normalizeNode U w n1), value n1),
                                 (uri (normalizeNode U w n2), value n2)],
              cont = FlushThen
                [(uri (normalizeNode U w n1), \<lparr>qnode = normalizeNode U w n1, callbacks = [cb1]\<rparr>),
                 (uri (normalizeNode U w n2), \<lparr>qnode = normalizeNode U w n2, callbacks = [cb2]\<rparr>)]\<rparr>)]"
    using assms(5) by (simp add: tf(7) normalizeNode_value)
qed

section \<open>Rendered nodes\<close>

text \<open>
  The registry never holds an entry under a URI. It starts empty, \<^verbatim>\<open>reportRenderedNode\<close>
  adds entries keyed by objects only and still publishes the node, \<^verbatim>\<open>reportRemovedNode\<close>
  finds nothing and changes nothing, and \<^verbatim>\<open>resetNodes\<close> empties it.
\<close>

lemma object_keyed_get: "object_keyed m \<Longrightarrow> rendered_get m (KString u) = None"
proof -
  assume "object_keyed m"
  then have "map_of m (KString u) = None"
    by (induction m) (auto simp: object_keyed_def split: mkey.splits)
  then show ?thesis by (simp add: rendered_get_def)
qed

lemma object_keyed_update:
  "object_keyed m \<Longrightarrow> object_keyed (AList.update (KObject a r) v m)"
  by (induction m) (auto simp: object_keyed_def split: mkey.splits)

lemma reportRenderedNode_object_keyed:
  assumes "object_keyed (renderedNodes w)"
  shows "object_keyed (renderedNodes (reportRenderedNode U n w))"
    and "djediNodesUri U w (uri (normalizeNode U w n))
           \<in> fst ` set (objects (reportRenderedNode U n w) (DJEDI_NODES w))"
proof -
  have g: "rendered_get (renderedNodes w) (KString (uri (normalizeNode U w n))) = None"
    using assms by (rule object_keyed_get)
  show "object_keyed (renderedNodes (reportRenderedNode U n w))"
    using assms by (simp add: reportRenderedNode_def Let_def g object_keyed_update)
  let ?w1 = "w\<lparr>renderedNodes := AList.update
        (KObject (next_addr w) \<lparr>r_value = value (normalizeNode U w n), numInstances = 1\<rparr>)
        None (renderedNodes w), next_addr := Suc (next_addr w)\<rparr>"
  have o: "djediNodesUri U ?w1 = djediNodesUri U w"
    by (simp add: djediNodesUri_def Djedi_stringifyUri_def Djedi_parseUri_def fun_eq_iff)
  have r: "reportRenderedNode U n w =
      ?w1\<lparr>objects := (objects ?w1)(DJEDI_NODES ?w1 :=
          AList.update (djediNodesUri U ?w1 (uri (normalizeNode U w n)))
            (value (normalizeNode U w n)) (objects ?w1 (DJEDI_NODES ?w1)))\<rparr>"
    by (simp add: reportRenderedNode_def Let_def g)
  show "djediNodesUri U w (uri (normalizeNode U w n))
           \<in> fst ` set (objects (reportRenderedNode U n w) (DJEDI_NODES w))"
    unfolding r o by (simp add: dom_update)
qed

lemma reportRemovedNode_object_keyed:
  "object_keyed (renderedNodes w) \<Longrightarrow> reportRemovedNode U u w = w"
  by (simp add: reportRemovedNode_def Let_def object_keyed_get)

lemma Djedi_object_keyed: "object_keyed (renderedNodes (Djedi host))"
  by (cases host rule: option.exhaust [case_product option.exhaust])
     (simp_all add: Djedi_def object_keyed_def Let_def split: option.splits)

lemma resetNodes_object_keyed: "object_keyed (renderedNodes (resetNodes w))"
  by (simp add: resetNodes_def Let_def object_keyed_def clearTimeout_def split: option.splits)

lemma apply_op_object_keyed:
  "object_keyed (renderedNodes w) \<Longrightarrow> object_keyed (renderedNodes (apply_op U x w))"
  by (cases x)
     (simp_all add: reportRenderedNode_object_keyed reportRemovedNode_object_keyed
        resetNodes_object_keyed)

lemma apply_ops_object_keyed:
  "object_keyed (renderedNodes w) \<Longrightarrow> object_keyed (renderedNodes (apply_ops U ops w))"
  unfolding apply_ops_def
  by (induction ops arbitrary: w) (simp_all add: apply_op_object_keyed)

lemma object_keyed_counted: "object_keyed m \<Longrightarrow> concat (map counted_uri m) = []"
  by (induction m) (auto simp: object_keyed_def split: mkey.splits)

lemma registry_never_counts:
  "registryUris U (apply_ops U ops (Djedi host)) = []"
  by (simp add: registryUris_def object_keyed_counted apply_ops_object_keyed Djedi_object_keyed)

text \<open>
  C2: \<^verbatim>\<open>reportRenderedNode\<close> twice and \<^verbatim>\<open>reportRemovedNode\<close> twice for the URI \<^verbatim>\<open>b\<close> on a
  new instance in a browser. After both removals the node is still in the externally
  visible map, and the registry holds two entries, each keyed by an object and holding
  \<^verbatim>\<open>undefined\<close>: no entry is keyed by the URI, so no reference count ever reaches 2 and
  neither removal finds anything to decrement.
\<close>

theorem removed_twice_still_published:
  "renderedNodes (reportRemovedNode specUri ''b'' (reportRemovedNode specUri ''b''
      (reportRenderedNode specUri \<lparr>uri = ''b'', value = Str ''x''\<rparr>
        (reportRenderedNode specUri \<lparr>uri = ''b'', value = Str ''x''\<rparr> (Djedi (Some None)))))) =
     [(KObject 2 \<lparr>r_value = Str ''x'', numInstances = 1\<rparr>, None),
      (KObject 3 \<lparr>r_value = Str ''x'', numInstances = 1\<rparr>, None)] \<and>
   externalMap (reportRemovedNode specUri ''b'' (reportRemovedNode specUri ''b''
      (reportRenderedNode specUri \<lparr>uri = ''b'', value = Str ''x''\<rparr>
        (reportRenderedNode specUri \<lparr>uri = ''b'', value = Str ''x''\<rparr> (Djedi (Some None)))))) =
     [(''i18n://en-us@b.txt#'', Str ''x'')]"
  by (simp add: uri_eval op_eval reportRenderedNode_def reportRemovedNode_def rendered_get_def
      externalMap_def)

text \<open>
  C3: after one \<^verbatim>\<open>reportRenderedNode\<close> on a new instance in a browser the externally
  visible map has the key of the node, while the registry has no entry keyed by a URI
  with a reference count other than zero: the two sets of the invariant differ.
\<close>

theorem external_map_not_registry:
  "map fst (externalMap (reportRenderedNode specUri \<lparr>uri = ''b'', value = Str ''x''\<rparr>
                (Djedi (Some None)))) = [''i18n://en-us@b.txt#''] \<and>
   registryUris specUri (reportRenderedNode specUri \<lparr>uri = ''b'', value = Str ''x''\<rparr>
                (Djedi (Some None))) = []"
  by (simp add: uri_eval op_eval reportRenderedNode_def rendered_get_def
      externalMap_def registryUris_def)

section \<open>Resetting the nodes\<close>

text \<open>
  C8: \<^verbatim>\<open>resetNodes\<close> cancels the pending timer of the batch, replaces the batch by an
  empty one, and empties the node cache, the registry of rendered nodes and the
  externally visible map. A \<^verbatim>\<open>get\<close> after it, for any node, calls no callback
  synchronously and issues a new request.
\<close>

theorem resetNodes_clears:
  "(\<forall>t. timeoutId (batch w) = Some t \<longrightarrow> t \<notin> fst ` set (timers (resetNodes w))) \<and>
   batch (resetNodes w) = makeEmptyBatch \<and>
   nodes (resetNodes w) = [] \<and>
   renderedNodes (resetNodes w) = [] \<and>
   externalMap (resetNodes w) = [] \<and>
   (\<forall>n cb. invoked (get U n cb (resetNodes w)) = invoked w \<and>
            sent (get U n cb (resetNodes w)) =
              sent w @ [\<lparr>url = baseUrl (options w) @ ''/djedi/load_many'',
                         body = JArray [json_node (normalizeNode U w n)]\<rparr>])"
proof -
  have o: "options (resetNodes w) = options w"
    by (simp add: resetNodes_def Let_def clearTimeout_def split: option.splits)
  have nn: "\<And>n. normalizeNode U (resetNodes w) n = normalizeNode U w n"
    by (rule normalizeNode_options) (rule o)
  have 1: "\<forall>t. timeoutId (batch w) = Some t \<longrightarrow> t \<notin> fst ` set (timers (resetNodes w))"
    by (auto simp: resetNodes_def Let_def clearTimeout_def split: option.splits)
  have 2: "batch (resetNodes w) = makeEmptyBatch" "nodes (resetNodes w) = []"
    "renderedNodes (resetNodes w) = []"
    by (simp_all add: resetNodes_def Let_def clearTimeout_def split: option.splits)
  have 3: "externalMap (resetNodes w) = []"
    by (simp add: resetNodes_def Let_def clearTimeout_def externalMap_def split: option.splits)
  have 4: "invoked (resetNodes w) = invoked w" "sent (resetNodes w) = sent w"
    by (simp_all add: resetNodes_def Let_def clearTimeout_def split: option.splits)
  have 5: "\<forall>n cb. invoked (get U n cb (resetNodes w)) = invoked w \<and>
            sent (get U n cb (resetNodes w)) =
              sent w @ [\<lparr>url = baseUrl (options w) @ ''/djedi/load_many'',
                         body = JArray [json_node (normalizeNode U w n)]\<rparr>]"
    by (simp add: get_def Let_def 2 4 o nn loadMany_def post_def)
  from 1 2 3 5 show ?thesis by blast
qed

theorem resetNodes_clears_witness:
  "timeoutId (batch (getBatched specUri \<lparr>uri = ''a'', value = Str ''y''\<rparr> 1
      (respond specUri 0
        (Responded \<lparr>r_status = 200, statusText = ''OK'',
                    r_json = Some [(''i18n://en-us@b.txt#'', Str ''z'')], r_text = None\<rparr>)
        (get specUri \<lparr>uri = ''b'', value = Str ''x''\<rparr> 7 (Djedi (Some None)))))) = Some 1 \<and>
   map_of (nodes (getBatched specUri \<lparr>uri = ''a'', value = Str ''y''\<rparr> 1
      (respond specUri 0
        (Responded \<lparr>r_status = 200, statusText = ''OK'',
                    r_json = Some [(''i18n://en-us@b.txt#'', Str ''z'')], r_text = None\<rparr>)
        (get specUri \<lparr>uri = ''b'', value = Str ''x''\<rparr> 7 (Djedi (Some None))))))
     ''i18n://en-us@b.txt#'' = Some \<lparr>uri = ''i18n://en-us@b.txt#'', value = Str ''z''\<rparr> \<and>
   1 \<notin> fst ` set (timers (resetNodes (getBatched specUri \<lparr>uri = ''a'', value = Str ''y''\<rparr> 1
      (respond specUri 0
        (Responded \<lparr>r_status = 200, statusText = ''OK'',
                    r_json = Some [(''i18n://en-us@b.txt#'', Str ''z'')], r_text = None\<rparr>)
        (get specUri \<lparr>uri = ''b'', value = Str ''x''\<rparr> 7 (Djedi (Some None))))))) \<and>
   sent (get specUri \<lparr>uri = ''b'', value = Str ''x''\<rparr> 8
      (resetNodes (getBatched specUri \<lparr>uri = ''a'', value = Str ''y''\<rparr> 1
      (respond specUri 0
        (Responded \<lparr>r_status = 200, statusText = ''OK'',
                    r_json = Some [(''i18n://en-us@b.txt#'', Str ''z'')], r_text = None\<rparr>)
        (get specUri \<lparr>uri = ''b'', value = Str ''x''\<rparr> 7 (Djedi (Some None))))))) =
     [\<lparr>url = ''/djedi/load_many'',
       body = JArray [JObject [(''uri'', JString ''i18n://en-us@b.txt#''),
                               (''value'', JString ''x'')]]\<rparr>,
      \<lparr>url = ''/djedi/load_many'',
       body = JArray [JObject [(''uri'', JString ''i18n://en-us@b.txt#''),
                               (''value'', JString ''x'')]]\<rparr>]"
proof -
  let ?W = "getBatched specUri \<lparr>uri = ''a'', value = Str ''y''\<rparr> 1
      (respond specUri 0
        (Responded \<lparr>r_status = 200, statusText = ''OK'',
                    r_json = Some [(''i18n://en-us@b.txt#'', Str ''z'')], r_text = None\<rparr>)
        (get specUri \<lparr>uri = ''b'', value = Str ''x''\<rparr> 7 (Djedi (Some None))))"
  let ?n = "\<lparr>uri = ''b'', value = Str ''x''\<rparr>"
  have 1: "timeoutId (batch ?W) = Some 1" by (simp add: uri_eval op_eval respond_eval)
  have 2: "map_of (nodes ?W) ''i18n://en-us@b.txt#'' =
             Some \<lparr>uri = ''i18n://en-us@b.txt#'', value = Str ''z''\<rparr>"
    by (simp add: uri_eval op_eval respond_eval)
  have v: "sent ?W = [\<lparr>url = ''/djedi/load_many'',
       body = JArray [JObject [(''uri'', JString ''i18n://en-us@b.txt#''),
                               (''value'', JString ''x'')]]\<rparr>]"
    "baseUrl (options ?W) = []"
    "json_node (normalizeNode specUri ?W ?n) =
       JObject [(''uri'', JString ''i18n://en-us@b.txt#''), (''value'', JString ''x'')]"
    by (simp_all add: uri_eval op_eval respond_eval)
  note t = resetNodes_clears [of ?W specUri]
  from t 1 have "1 \<notin> fst ` set (timers (resetNodes ?W))" by blast
  moreover from t have "sent (get specUri ?n 8 (resetNodes ?W)) =
      sent ?W @ [\<lparr>url = baseUrl (options ?W) @ ''/djedi/load_many'',
                  body = JArray [json_node (normalizeNode specUri ?W ?n)]\<rparr>]"
    by blast
  then have "sent (get specUri ?n 8 (resetNodes ?W)) =
     [\<lparr>url = ''/djedi/load_many'',
       body = JArray [JObject [(''uri'', JString ''i18n://en-us@b.txt#''),
                               (''value'', JString ''x'')]]\<rparr>,
      \<lparr>url = ''/djedi/load_many'',
       body = JArray [JObject [(''uri'', JString ''i18n://en-us@b.txt#''),
                               (''value'', JString ''x'')]]\<rparr>]"
    unfolding v by simp
  ultimately show ?thesis using 1 2 by simp
qed

section \<open>Identifiers stay fresh\<close>

text \<open>
  \<open>ids_fresh\<close> holds for a new instance and is kept by every operation and event.
\<close>

lemma call_all_net:
  "sent (call_all cbs x w) = sent w" "inflight (call_all cbs x w) = inflight w"
  "next_timer (call_all cbs x w) = next_timer w"
  unfolding call_all_def by (induction cbs arbitrary: w) (simp_all add: call_def)

lemma flush_error_net:
  "sent (flush_error e q w) = sent w" "inflight (flush_error e q w) = inflight w"
  "next_timer (flush_error e q w) = next_timer w"
  by (induction q arbitrary: w) (auto simp: call_all_net)

lemma flush_results_net:
  "sent (flush_results rs q w) = sent w" "inflight (flush_results rs q w) = inflight w"
  "next_timer (flush_results rs q w) = next_timer w"
  by (induction q arbitrary: w)
     (auto simp: call_all_net missingUriError_def Let_def split: prod.splits)

lemma addNodes_fold_net:
  "sent (fold (\<lambda>u w. let rawNode = \<lparr>uri = u, value = get_prop ns u\<rparr>;
                          n = normalizeNode U w rawNode
                      in w\<lparr>nodes := AList.update (uri n) n (nodes w)\<rparr>) us w) = sent w"
  "inflight (fold (\<lambda>u w. let rawNode = \<lparr>uri = u, value = get_prop ns u\<rparr>;
                          n = normalizeNode U w rawNode
                      in w\<lparr>nodes := AList.update (uri n) n (nodes w)\<rparr>) us w) = inflight w"
  "next_timer (fold (\<lambda>u w. let rawNode = \<lparr>uri = u, value = get_prop ns u\<rparr>;
                          n = normalizeNode U w rawNode
                      in w\<lparr>nodes := AList.update (uri n) n (nodes w)\<rparr>) us w) = next_timer w"
  by (induction us arbitrary: w) (simp_all add: Let_def)

lemma addNodes_net:
  "sent (addNodes U ns w) = sent w" "inflight (addNodes U ns w) = inflight w"
  "next_timer (addNodes U ns w) = next_timer w"
  unfolding addNodes_def by (rule addNodes_fold_net)+

lemma post_settle_net:
  "sent (snd (post_settle p out w)) = sent w"
  "inflight (snd (post_settle p out w)) = inflight w"
  "next_timer (snd (post_settle p out w)) = next_timer w"
  by (simp_all add: post_settle_def post_catch_def split: outcome.splits option.splits)

lemma run_cont_net:
  "sent (run_cont k res w) = sent w" "inflight (run_cont k res w) = inflight w"
  "next_timer (run_cont k res w) = next_timer w"
  by (cases k; cases res;
      simp add: flush_error_net flush_results_net call_def missingUriError_def)+

lemma delete_absent: "map_of xs k = None \<Longrightarrow> AList.delete k xs = xs"
  by (induction xs) (auto simp: AList.delete_eq)

lemma respond_net:
  "sent (respond U rid out w) = sent w"
  "next_timer (respond U rid out w) = next_timer w"
  "inflight (respond U rid out w) = AList.delete rid (inflight w)"
proof -
  show "sent (respond U rid out w) = sent w"
  proof (cases "map_of (inflight w) rid")
    case None
    then show ?thesis by (simp add: respond_def)
  next
    case (Some p)
    then show ?thesis
      by (simp add: respond_unfold Let_def run_cont_net addNodes_net post_settle_net
          split: sum.splits)
  qed
  show "next_timer (respond U rid out w) = next_timer w"
  proof (cases "map_of (inflight w) rid")
    case None
    then show ?thesis by (simp add: respond_def)
  next
    case (Some p)
    then show ?thesis
      by (simp add: respond_unfold Let_def run_cont_net addNodes_net post_settle_net
          split: sum.splits)
  qed
  show "inflight (respond U rid out w) = AList.delete rid (inflight w)"
  proof (cases "map_of (inflight w) rid")
    case None
    then show ?thesis by (simp add: respond_def delete_absent)
  next
    case (Some p)
    then show ?thesis
      by (simp add: respond_unfold Let_def run_cont_net addNodes_net post_settle_net
          split: sum.splits)
  qed
qed

lemma list_all_delete: "list_all P xs \<Longrightarrow> list_all P (AList.delete k xs)"
  by (simp add: AList.delete_eq list_all_iff)

lemma list_all_less_Suc:
  "list_all (\<lambda>(i, d). i < m) xs \<Longrightarrow> list_all (\<lambda>(i, d). i < Suc m) xs"
  by (induction xs) auto

lemma ids_fresh_Djedi: "ids_fresh (Djedi host)"
  by (cases host rule: option.exhaust [case_product option.exhaust])
     (simp_all add: ids_fresh_def Djedi_def Let_def split: option.splits)

lemma ids_fresh_post: "ids_fresh w \<Longrightarrow> ids_fresh (post a d k w)"
  by (simp add: ids_fresh_def post_def list_all_less_Suc)

lemma ids_fresh_get: "ids_fresh w \<Longrightarrow> ids_fresh (get U n cb w)"
  by (simp add: get_def Let_def loadMany_def ids_fresh_post split: option.splits)
     (simp add: ids_fresh_def call_def)

lemma ids_fresh_getBatched: "ids_fresh w \<Longrightarrow> ids_fresh (getBatched U n cb w)"
proof -
  assume a: "ids_fresh w"
  show ?thesis
  proof (cases "batchInterval (options w) \<le> 0")
    case True
    with a show ?thesis by (simp add: getBatched_def ids_fresh_get)
  next
    case False
    with a show ?thesis
      by (auto simp: getBatched_def Let_def ids_fresh_def call_def setTimeout_def
          list_all_less_Suc split: option.splits)
  qed
qed

lemma ids_fresh_timeout: "ids_fresh w \<Longrightarrow> ids_fresh (timeout t w)"
proof -
  assume a: "ids_fresh w"
  then have "ids_fresh (clearTimeout t w)"
    by (simp add: ids_fresh_def clearTimeout_def list_all_iff)
  then have "ids_fresh ((clearTimeout t w)\<lparr>batch := makeEmptyBatch\<rparr>)"
    by (simp add: ids_fresh_def)
  then show ?thesis using a
    by (simp add: timeout_def flushBatch_def Let_def loadMany_def ids_fresh_post)
qed

lemma ids_fresh_respond: "ids_fresh w \<Longrightarrow> ids_fresh (respond U rid out w)"
  by (simp add: ids_fresh_def respond_net respond_frame list_all_delete)

lemma ids_fresh_rendered:
  "ids_fresh w \<Longrightarrow> ids_fresh (reportRenderedNode U n w)"
  "ids_fresh w \<Longrightarrow> ids_fresh (reportRemovedNode U u w)"
  by (simp_all add: ids_fresh_def reportRenderedNode_def reportRemovedNode_def Let_def
      split: option.splits)

lemma ids_fresh_reset:
  "ids_fresh w \<Longrightarrow> ids_fresh (resetOptions w)"
  "ids_fresh w \<Longrightarrow> ids_fresh (resetNodes w)"
  by (simp_all add: ids_fresh_def resetOptions_def resetNodes_def clearTimeout_def Let_def
      list_all_iff split: option.splits)

end
